theory Spec2Isabelle
  imports Complex_Main
begin

section \<open>JavaScript strings\<close>

text \<open>
  A JavaScript string is modelled as a \<^typ>\<open>string\<close>, one \<^typ>\<open>char\<close> per code unit.
  A code unit above 255 has no \<^typ>\<open>char\<close>; the one such character of the sources, the
  arrow in the message of an invalid transition, is written as its three UTF-8 bytes.
  The functions below are the string methods the sources call.
\<close>

text \<open>\<^verbatim>\<open>s.startsWith(p)\<close>\<close>

fun startsWith :: "string \<Rightarrow> string \<Rightarrow> bool" where
  "startsWith s [] = True"
| "startsWith [] (p # ps) = False"
| "startsWith (c # cs) (p # ps) = (c = p \<and> startsWith cs ps)"

text \<open>\<^verbatim>\<open>s.includes(c)\<close> for a one-character needle.\<close>

definition includesChar :: "string \<Rightarrow> char \<Rightarrow> bool" where
  "includesChar s c \<longleftrightarrow> c \<in> set s"

text \<open>
  \<^verbatim>\<open>s.replace(pat, rep)\<close> with a string pattern: only the first occurrence is replaced.
\<close>

fun replaceFirst :: "string \<Rightarrow> string \<Rightarrow> string \<Rightarrow> string" where
  "replaceFirst pat rep [] = (if pat = [] then rep else [])"
| "replaceFirst pat rep (c # cs) =
     (if startsWith (c # cs) pat then rep @ drop (length pat) (c # cs)
      else c # replaceFirst pat rep cs)"

text \<open>
  \<^verbatim>\<open>s.trim()\<close> removes leading and trailing white space. Of the white-space code units
  of ECMAScript those below 256 are TAB, LF, VT, FF, CR, SPACE and NBSP.
\<close>

definition isWhiteSpace :: "char \<Rightarrow> bool" where
  "isWhiteSpace c \<longleftrightarrow> of_char c \<in> {9, 10, 11, 12, 13, 32, 160 :: nat}"

definition trim :: "string \<Rightarrow> string" where
  "trim s = rev (dropWhile isWhiteSpace (rev (dropWhile isWhiteSpace s)))"

text \<open>\<^verbatim>\<open>s.split(sep)\<close> for a one-character separator; the result is never empty.\<close>

fun split :: "char \<Rightarrow> string \<Rightarrow> string list" where
  "split sep [] = [] # []"
| "split sep (c # cs) =
     (if c = sep then [] # split sep cs
      else (case split sep cs of
              [] \<Rightarrow> [c] # []
            | p # ps \<Rightarrow> (c # p) # ps))"

text \<open>\<^verbatim>\<open>parts.join(sep)\<close>\<close>

fun join :: "string \<Rightarrow> string list \<Rightarrow> string" where
  "join sep [] = []"
| "join sep [x] = x"
| "join sep (x # y # ys) = x @ sep @ join sep (y # ys)"

text \<open>\<^verbatim>\<open>s.indexOf(c)\<close>: the first position of \<open>c\<close>, or \<open>-1\<close>.\<close>

definition indexOf :: "string \<Rightarrow> char \<Rightarrow> int" where
  "indexOf s c = (if c \<in> set s then int (length (takeWhile (\<lambda>x. x \<noteq> c) s)) else - 1)"

text \<open>
  \<^verbatim>\<open>s.substring(a, b)\<close> and \<^verbatim>\<open>s.substring(a)\<close>: both arguments are clamped to
  \<open>[0, length]\<close> and swapped when \<open>a > b\<close>.
\<close>

definition substring :: "string \<Rightarrow> int \<Rightarrow> int \<Rightarrow> string" where
  "substring s a b =
     (let n = int (length s);
          a' = max 0 (min a n);
          b' = max 0 (min b n);
          lo = min a' b';
          hi = max a' b'
      in take (nat (hi - lo)) (drop (nat lo) s))"

definition substringFrom :: "string \<Rightarrow> int \<Rightarrow> string" where
  "substringFrom s a = substring s a (int (length s))"

text \<open>The truth value of a possibly undefined string: undefined and the empty string are falsy.\<close>

definition truthy :: "string option \<Rightarrow> bool" where
  "truthy v \<longleftrightarrow> (case v of None \<Rightarrow> False | Some s \<Rightarrow> s \<noteq> [])"

text \<open>\<^verbatim>\<open>a || b\<close> on possibly undefined strings.\<close>

definition jsOr :: "string option \<Rightarrow> string option \<Rightarrow> string option" where
  "jsOr a b = (if truthy a then a else b)"


section \<open>Route protection (lib/auth/route-protection.ts)\<close>

datatype UserRole = BUILDER | ORGANIZER | JUDGE | MENTOR

definition publicRoutes :: "string list" where
  "publicRoutes =
     [''/'', ''/login'', ''/signup'', ''/features'', ''/pricing'', ''/docs'',
      ''/contact'', ''/privacy'', ''/terms'', ''/public-hackathons'']"

definition isPublicRoute :: "string \<Rightarrow> bool" where
  "isPublicRoute pathname =
     list_ex (\<lambda>route. if route = ''/'' then pathname = ''/'' else startsWith pathname route)
       publicRoutes"

definition protectedRoutes :: "string list" where
  "protectedRoutes = [''/hackathons'', ''/profile'', ''/settings'']"

definition isProtectedRoute :: "string \<Rightarrow> bool" where
  "isProtectedRoute pathname = list_ex (\<lambda>route. startsWith pathname route) protectedRoutes"

text \<open>
  The regular expressions of the module all have the shape
  \<^verbatim>\<open>/^\/hackathons\/[^/]+\/SECTION/\<close>: anchored at the start only, one non-empty
  segment without a slash, a slash, and the section name. After the fixed prefix the
  segment \<^verbatim>\<open>[^/]+\<close> must be followed by a slash, so it can only end at the first
  slash: the match is decided by reading the segment up to that slash.
\<close>

definition matchHackathonSection :: "string \<Rightarrow> string \<Rightarrow> bool" where
  "matchHackathonSection section pathname =
     (startsWith pathname ''/hackathons/'' \<and>
      (let rest = drop (length ''/hackathons/'') pathname;
           ident = takeWhile (\<lambda>c. c \<noteq> CHR ''/'') rest;
           after = dropWhile (\<lambda>c. c \<noteq> CHR ''/'') rest
       in ident \<noteq> [] \<and> startsWith after (CHR ''/'' # section)))"

definition getRequiredRoles :: "string \<Rightarrow> UserRole list option" where
  "getRequiredRoles pathname =
     (if matchHackathonSection ''setup'' pathname \<or>
         matchHackathonSection ''participants'' pathname \<or>
         matchHackathonSection ''prizes'' pathname \<or>
         startsWith pathname ''/api-settings''
      then Some [ORGANIZER]
      else if matchHackathonSection ''judging'' pathname
      then Some [JUDGE]
      else if matchHackathonSection ''teams'' pathname \<or>
              matchHackathonSection ''projects'' pathname \<or>
              matchHackathonSection ''submissions'' pathname
      then Some [BUILDER, ORGANIZER]
      else None)"

definition hasAccess :: "UserRole \<Rightarrow> string \<Rightarrow> bool" where
  "hasAccess userRole pathname =
     (case getRequiredRoles pathname of
        None \<Rightarrow> True
      | Some requiredRoles \<Rightarrow> userRole \<in> set requiredRoles)"

text \<open>
  The route matrix in the words of the specification: a path matches
  \<^verbatim>\<open>/hackathons/{id}/SECTION\<close> when it is \<^verbatim>\<open>/hackathons/\<close>, a non-empty identifier
  without a slash, a slash, the section name, and anything after it.
\<close>

definition hackathonSectionPath :: "string \<Rightarrow> string \<Rightarrow> bool" where
  "hackathonSectionPath section p \<longleftrightarrow>
     (\<exists>ident tail. ident \<noteq> [] \<and> CHR ''/'' \<notin> set ident \<and>
        p = ''/hackathons/'' @ ident @ ''/'' @ section @ tail)"

definition hasPrefix :: "string \<Rightarrow> string \<Rightarrow> bool" where
  "hasPrefix pre p \<longleftrightarrow> (\<exists>tail. p = pre @ tail)"

definition organizerOnlyPath :: "string \<Rightarrow> bool" where
  "organizerOnlyPath p \<longleftrightarrow>
     hackathonSectionPath ''setup'' p \<or> hackathonSectionPath ''participants'' p \<or>
     hackathonSectionPath ''prizes'' p \<or> hasPrefix ''/api-settings'' p"

definition judgeOnlyPath :: "string \<Rightarrow> bool" where
  "judgeOnlyPath p \<longleftrightarrow> hackathonSectionPath ''judging'' p"

definition builderOrganizerPath :: "string \<Rightarrow> bool" where
  "builderOrganizerPath p \<longleftrightarrow>
     hackathonSectionPath ''teams'' p \<or> hackathonSectionPath ''projects'' p \<or>
     hackathonSectionPath ''submissions'' p"

definition underProtectedPrefix :: "string \<Rightarrow> bool" where
  "underProtectedPrefix p \<longleftrightarrow>
     hasPrefix ''/hackathons'' p \<or> hasPrefix ''/profile'' p \<or> hasPrefix ''/settings'' p"

definition inPublicList :: "string \<Rightarrow> bool" where
  "inPublicList p \<longleftrightarrow>
     p = ''/'' \<or>
     (\<exists>r \<in> {''/login'', ''/signup'', ''/features'', ''/pricing'', ''/docs'', ''/contact'',
             ''/privacy'', ''/terms'', ''/public-hackathons''}. hasPrefix r p)"


section \<open>Edge middleware (middleware.ts)\<close>

text \<open>
  Of a request the middleware reads the path, the value of the cookie \<^verbatim>\<open>auth_token\<close>
  and the header \<^verbatim>\<open>authorization\<close>; a missing cookie or header is \<open>None\<close>.
\<close>

record NextRequest =
  pathname :: string
  cookie_auth_token :: "string option"
  header_authorization :: "string option"

text \<open>
  \<^verbatim>\<open>NextResponse.next()\<close> and \<^verbatim>\<open>NextResponse.redirect(url)\<close>; the URL is kept as
  its path and its query parameters (the origin is that of the request).
\<close>

datatype NextResponse = Next | Redirect string "(string \<times> string) list"

definition PUBLIC_ROUTES :: "string list" where
  "PUBLIC_ROUTES =
     [''/'', ''/login'', ''/signup'', ''/features'', ''/pricing'', ''/docs'',
      ''/contact'', ''/privacy'', ''/terms'', ''/public-hackathons'']"

definition PROTECTED_ROUTES :: "string list" where
  "PROTECTED_ROUTES = [''/hackathons'', ''/profile'', ''/settings'']"

definition ORGANIZER_ROUTES :: "string list" where
  "ORGANIZER_ROUTES = [''/api-settings'']"

definition mw_isPublicRoute :: "string \<Rightarrow> bool" where
  "mw_isPublicRoute p =
     list_ex (\<lambda>route. if route = ''/'' then p = ''/'' else startsWith p route) PUBLIC_ROUTES"

definition mw_isProtectedRoute :: "string \<Rightarrow> bool" where
  "mw_isProtectedRoute p = list_ex (\<lambda>route. startsWith p route) PROTECTED_ROUTES"

definition requiresOrganizer :: "string \<Rightarrow> bool" where
  "requiresOrganizer p = list_ex (\<lambda>route. startsWith p route) ORGANIZER_ROUTES"

definition requiresJudge :: "string \<Rightarrow> bool" where
  "requiresJudge p = matchHackathonSection ''judging'' p"

definition requiresOrganizerForHackathon :: "string \<Rightarrow> bool" where
  "requiresOrganizerForHackathon p =
     list_ex (\<lambda>section. matchHackathonSection section p) [''setup'', ''participants'', ''prizes'']"

text \<open>
  \<^verbatim>\<open>request.cookies.get('auth_token')?.value ||
  request.headers.get('authorization')?.replace('Bearer ', '')\<close>
\<close>

definition requestToken :: "NextRequest \<Rightarrow> string option" where
  "requestToken request =
     jsOr (cookie_auth_token request)
          (map_option (replaceFirst ''Bearer '' '''') (header_authorization request))"

definition middleware :: "NextRequest \<Rightarrow> NextResponse" where
  "middleware request =
     (let p = pathname request in
      if startsWith p ''/_next'' \<or> startsWith p ''/api'' \<or> startsWith p ''/static'' \<or>
         includesChar p CHR ''.''
      then Next
      else
        let token = requestToken request in
        if mw_isPublicRoute p then Next
        else if \<not> truthy token \<and>
                (mw_isProtectedRoute p \<or> requiresOrganizer p \<or> requiresJudge p \<or>
                 requiresOrganizerForHackathon p)
        then Redirect ''/login'' [(''redirect'', p)]
        else Next)"

text \<open>
  The paths the specification counts as requiring authentication: the protected prefixes
  and every role-gated route of the route matrix.
\<close>

definition authRequiredPath :: "string \<Rightarrow> bool" where
  "authRequiredPath p \<longleftrightarrow>
     underProtectedPrefix p \<or> organizerOnlyPath p \<or> judgeOnlyPath p \<or> builderOrganizerPath p"

definition hackathonRoleGatedPath :: "string \<Rightarrow> bool" where
  "hackathonRoleGatedPath p \<longleftrightarrow>
     (\<exists>section \<in> {''setup'', ''participants'', ''prizes'', ''judging'', ''teams'',
                   ''projects'', ''submissions''}. hackathonSectionPath section p)"

text \<open>A request that carries no credential: no cookie and no authorization header.\<close>

definition noCredential :: "NextRequest \<Rightarrow> bool" where
  "noCredential request \<longleftrightarrow>
     cookie_auth_token request = None \<and> header_authorization request = None"


section \<open>Hackathon lifecycle (lib/workflows, status transitions and setup)\<close>

datatype HackathonStatus = DRAFT | LIVE | CLOSED

definition statusName :: "HackathonStatus \<Rightarrow> string" where
  "statusName s = (case s of DRAFT \<Rightarrow> ''DRAFT'' | LIVE \<Rightarrow> ''LIVE'' | CLOSED \<Rightarrow> ''CLOSED'')"

definition VALID_STATUS_TRANSITIONS :: "(HackathonStatus \<times> HackathonStatus list) list" where
  "VALID_STATUS_TRANSITIONS = [(DRAFT, [LIVE]), (LIVE, [CLOSED]), (CLOSED, [])]"

definition canTransitionStatus :: "HackathonStatus \<Rightarrow> HackathonStatus \<Rightarrow> bool" where
  "canTransitionStatus currentStatus newStatus =
     (case map_of VALID_STATUS_TRANSITIONS currentStatus of
        Some validTransitions \<Rightarrow> newStatus \<in> set validTransitions
      | None \<Rightarrow> False)"

definition getValidTransitions :: "HackathonStatus \<Rightarrow> HackathonStatus list" where
  "getValidTransitions status =
     (case map_of VALID_STATUS_TRANSITIONS status of Some ts \<Rightarrow> ts | None \<Rightarrow> [])"

text \<open>
  A value thrown by a collaborator: an \<^verbatim>\<open>Error\<close> with its message, or any other value.
  The workflows read it with
  \<^verbatim>\<open>error instanceof Error ? error.message : 'Unknown error'\<close>.
\<close>

datatype thrown = ErrorObj string | OtherValue

definition thrownMessage :: "thrown \<Rightarrow> string" where
  "thrownMessage e = (case e of ErrorObj m \<Rightarrow> m | OtherValue \<Rightarrow> ''Unknown error'')"

text \<open>\<^verbatim>\<open>new APIError(message, statusCode)\<close> of lib/error-handling.\<close>

datatype APIError = APIError string nat

text \<open>
  Modelled from the spec: the types \<^verbatim>\<open>Hackathon\<close>, \<^verbatim>\<open>Track\<close>, \<^verbatim>\<open>Rubric\<close> and
  the inputs \<^verbatim>\<open>CreateHackathonInput\<close>, \<^verbatim>\<open>CreateTrackInput\<close> are declared in
  lib/types and lib/api/hackathons, lib/api/tracks, which are not among the sources. The
  records hold the fields the data model of the specification names and the fields the
  workflow reads or writes; a field a caller may leave out is an option.
\<close>

record Hackathon =
  hackathon_id :: string
  hackathon_name :: string
  hackathon_description :: string
  hackathon_status :: HackathonStatus
  start_at :: string
  end_at :: string

record CreateHackathonInput =
  chi_name :: string
  chi_description :: string
  chi_status :: "HackathonStatus option"
  chi_start_at :: string
  chi_end_at :: string

record UpdateHackathonInput =
  uhi_hackathon_id :: string
  uhi_status :: HackathonStatus

record CreateTrackInput =
  cti_hackathon_id :: "string option"
  cti_name :: string
  cti_description :: string

record Track =
  track_id :: string
  track_hackathon_id :: string
  track_name :: string
  track_description :: string

text \<open>
  The rubric input as the setup workflow reads it: it tests \<^verbatim>\<open>rubricInput.criteria_json\<close>
  and passes the object on with \<^verbatim>\<open>hackathon_id\<close> set.
\<close>

record SetupRubricInput =
  sri_hackathon_id :: "string option"
  sri_title :: "string option"
  sri_criteria_json :: "string option"

record Rubric =
  rubric_id :: string
  rubric_hackathon_id :: string
  rubric_title :: string
  criteria_json :: string

text \<open>
  The calls the lifecycle workflows make to the API modules, each with its input and what
  came back (the thrown value or the result), in the order they are issued. The
  collaborators are parameters of the workflows: each takes its input and the state of the
  external store and returns either the thrown value or its result, with the new state.
\<close>

datatype LifecycleCall =
    CreateHackathonCall CreateHackathonInput "thrown + Hackathon"
  | CreateTrackCall CreateTrackInput "thrown + Track"
  | CreateRubricCall SetupRubricInput "thrown + Rubric"
  | UpdateHackathonCall UpdateHackathonInput "thrown + Hackathon"

record 'w LifecycleApi =
  createHackathon :: "CreateHackathonInput \<Rightarrow> 'w \<Rightarrow> (thrown + Hackathon) \<times> 'w"
  createTrack :: "CreateTrackInput \<Rightarrow> 'w \<Rightarrow> (thrown + Track) \<times> 'w"
  createRubricApi :: "SetupRubricInput \<Rightarrow> 'w \<Rightarrow> (thrown + Rubric) \<times> 'w"
  updateHackathon :: "UpdateHackathonInput \<Rightarrow> 'w \<Rightarrow> (thrown + Hackathon) \<times> 'w"

text \<open>The state a workflow threads: the external store and the log of calls issued so far.\<close>

record ('w, 'c) run =
  store :: 'w
  calls :: "'c list"

definition invoke ::
  "('i \<Rightarrow> 'w \<Rightarrow> (thrown + 'o) \<times> 'w) \<Rightarrow> ('i \<Rightarrow> thrown + 'o \<Rightarrow> 'c) \<Rightarrow> 'i
     \<Rightarrow> ('w, 'c) run \<Rightarrow> (thrown + 'o) \<times> ('w, 'c) run" where
  "invoke f tag inp st =
     (let (res, w') = f inp (store st)
      in (res, \<lparr>store = w', calls = calls st @ [tag inp res]\<rparr>))"

text \<open>The three bytes of the arrow U+2192 in the message of an invalid transition.\<close>

definition arrow :: string where
  "arrow = [char_of (226 :: nat), char_of (134 :: nat), char_of (146 :: nat)]"

definition invalidTransitionMessage :: "HackathonStatus \<Rightarrow> HackathonStatus \<Rightarrow> string" where
  "invalidTransitionMessage currentStatus newStatus =
     ''Invalid status transition: '' @ statusName currentStatus @ '' '' @ arrow @ '' '' @
     statusName newStatus @ ''. Valid transitions: '' @
     (let joined = (case map_of VALID_STATUS_TRANSITIONS currentStatus of
                      Some ts \<Rightarrow> join '', '' (map statusName ts)
                    | None \<Rightarrow> [])
      in if joined = [] then ''none'' else joined)"

definition transitionHackathonStatus ::
  "'w LifecycleApi \<Rightarrow> string \<Rightarrow> HackathonStatus \<Rightarrow> HackathonStatus
     \<Rightarrow> ('w, LifecycleCall) run \<Rightarrow> (APIError + Hackathon) \<times> ('w, LifecycleCall) run" where
  "transitionHackathonStatus api hackathonId currentStatus newStatus st =
     (let validTransitions = map_of VALID_STATUS_TRANSITIONS currentStatus in
      if (case validTransitions of None \<Rightarrow> True | Some ts \<Rightarrow> newStatus \<notin> set ts)
      then (Inl (APIError (invalidTransitionMessage currentStatus newStatus) 400), st)
      else
        (case invoke (updateHackathon api) UpdateHackathonCall
                \<lparr>uhi_hackathon_id = hackathonId, uhi_status = newStatus\<rparr> st of
           (Inr h, st') \<Rightarrow> (Inr h, st')
         | (Inl e, st') \<Rightarrow>
             (Inl (APIError (''Failed to transition hackathon status: '' @ thrownMessage e) 500),
              st')))"

text \<open>The setup workflow \<^verbatim>\<open>createHackathonWithSetup\<close>.\<close>

record HackathonLifecycleInput =
  li_hackathon :: CreateHackathonInput
  li_tracks :: "CreateTrackInput list"
  li_rubric :: SetupRubricInput

record HackathonLifecycleResult =
  lr_hackathon :: Hackathon
  lr_tracks :: "Track list"
  lr_rubric :: Rubric

datatype LifecyclePhase = validation | hackathon_create | tracks_create | rubric_create

record HackathonLifecycleError =
  le_phase :: LifecyclePhase
  le_message :: string
  le_canRetry :: bool
  le_hackathonId :: "string option"
  le_createdTracks :: "Track list option"

definition createLifecycleError ::
  "LifecyclePhase \<Rightarrow> string \<Rightarrow> bool \<Rightarrow> string option \<Rightarrow> Track list option
     \<Rightarrow> HackathonLifecycleError" where
  "createLifecycleError phase message canRetry hackathonId createdTracks =
     \<lparr>le_phase = phase, le_message = message, le_canRetry = canRetry,
      le_hackathonId = hackathonId, le_createdTracks = createdTracks\<rparr>"

text \<open>
  The loop \<^verbatim>\<open>for (const trackInput of tracksInput)\<close>: the tracks pushed so far are
  the accumulator; a throw leaves the loop with the thrown value and that list.
\<close>

fun createTracks ::
  "'w LifecycleApi \<Rightarrow> string \<Rightarrow> CreateTrackInput list \<Rightarrow> Track list
     \<Rightarrow> ('w, LifecycleCall) run
     \<Rightarrow> ((thrown \<times> Track list) + Track list) \<times> ('w, LifecycleCall) run" where
  "createTracks api hid [] createdTracks st = (Inr createdTracks, st)"
| "createTracks api hid (trackInput # rest) createdTracks st =
     (case invoke (createTrack api) CreateTrackCall
             (trackInput\<lparr>cti_hackathon_id := Some hid\<rparr>) st of
        (Inl e, st') \<Rightarrow> (Inl (e, createdTracks), st')
      | (Inr track, st') \<Rightarrow> createTracks api hid rest (createdTracks @ [track]) st')"

definition createHackathonWithSetup ::
  "'w LifecycleApi \<Rightarrow> HackathonLifecycleInput \<Rightarrow> ('w, LifecycleCall) run
     \<Rightarrow> (HackathonLifecycleError + HackathonLifecycleResult) \<times> ('w, LifecycleCall) run" where
  "createHackathonWithSetup api input st =
     (let hackathonInput = li_hackathon input;
          tracksInput = li_tracks input;
          rubricInput = li_rubric input
      in
      if trim (chi_name hackathonInput) = []
      then (Inl (createLifecycleError validation ''Hackathon name is required'' False
                   None None), st)
      else if tracksInput = []
      then (Inl (createLifecycleError validation ''At least one track is required'' False
                   None None), st)
      else if \<not> truthy (sri_criteria_json rubricInput)
      then (Inl (createLifecycleError validation ''Rubric criteria are required'' False
                   None None), st)
      else
        (case invoke (createHackathon api) CreateHackathonCall
                (hackathonInput\<lparr>chi_status := Some DRAFT\<rparr>) st of
           (Inl e, st1) \<Rightarrow>
             (Inl (createLifecycleError hackathon_create
                     (''Failed to create hackathon: '' @ thrownMessage e) True None None), st1)
         | (Inr hackathon, st1) \<Rightarrow>
             (case createTracks api (hackathon_id hackathon) tracksInput [] st1 of
                (Inl (e, createdTracks), st2) \<Rightarrow>
                  (Inl (createLifecycleError tracks_create
                          (''Failed to create tracks: '' @ thrownMessage e) True
                          (Some (hackathon_id hackathon)) (Some createdTracks)), st2)
              | (Inr createdTracks, st2) \<Rightarrow>
                  (case invoke (createRubricApi api) CreateRubricCall
                          (rubricInput\<lparr>sri_hackathon_id := Some (hackathon_id hackathon)\<rparr>)
                          st2 of
                     (Inl e, st3) \<Rightarrow>
                       (Inl (createLifecycleError rubric_create
                               (''Failed to create rubric: '' @ thrownMessage e) True
                               (Some (hackathon_id hackathon)) (Some createdTracks)), st3)
                   | (Inr rubric, st3) \<Rightarrow>
                       (Inr \<lparr>lr_hackathon = hackathon, lr_tracks = createdTracks,
                             lr_rubric = rubric\<rparr>, st3)))))"

text \<open>
  The events the setup workflow leaves in the log, in the words of the specification:
  the hackathon first, then one track after the other, then the rubric.
\<close>

definition trackEvents :: "string \<Rightarrow> CreateTrackInput list \<Rightarrow> Track list \<Rightarrow> LifecycleCall list" where
  "trackEvents hid inputs tracks =
     map (\<lambda>(i, t). CreateTrackCall (i\<lparr>cti_hackathon_id := Some hid\<rparr>) (Inr t)) (zip inputs tracks)"






text \<open>
  The collaborators of the lifecycle test suite: every call succeeds and leaves the store
  (here without content) as it is.
\<close>

definition mockHackathon :: Hackathon where
  "mockHackathon =
     \<lparr>hackathon_id = ''hackathon-123'', hackathon_name = ''Test Hackathon'',
      hackathon_description = ''Test Description'', hackathon_status = DRAFT,
      start_at = ''2025-01-01T00:00:00Z'', end_at = ''2025-01-31T23:59:59Z''\<rparr>"

definition mockApi :: "unit LifecycleApi" where
  "mockApi =
     \<lparr>createHackathon = (\<lambda>i w. (Inr mockHackathon, w)),
      createTrack = (\<lambda>i w.
        (Inr \<lparr>track_id = ''track-'' @ cti_name i,
              track_hackathon_id = (case cti_hackathon_id i of Some h \<Rightarrow> h | None \<Rightarrow> []),
              track_name = cti_name i, track_description = cti_description i\<rparr>, w)),
      createRubricApi = (\<lambda>i w.
        (Inr \<lparr>rubric_id = ''rubric-123'',
              rubric_hackathon_id = (case sri_hackathon_id i of Some h \<Rightarrow> h | None \<Rightarrow> []),
              rubric_title = (case sri_title i of Some t \<Rightarrow> t | None \<Rightarrow> []),
              criteria_json = (case sri_criteria_json i of Some j \<Rightarrow> j | None \<Rightarrow> [])\<rparr>, w)),
      updateHackathon = (\<lambda>i w. (Inr (mockHackathon\<lparr>hackathon_status := uhi_status i\<rparr>), w))\<rparr>"

definition emptyRun :: "(unit, 'c) run" where
  "emptyRun = \<lparr>store = (), calls = []\<rparr>"

text \<open>
  The collaborators of the test \<open>track creation fails\<close>: the store counts the calls of
  \<^verbatim>\<open>createTrack\<close>, and the second one throws.
\<close>

definition failingTrackApi :: "nat LifecycleApi" where
  "failingTrackApi =
     \<lparr>createHackathon = (\<lambda>i w. (Inr mockHackathon, w)),
      createTrack = (\<lambda>i w.
        (if w = 0
         then Inr \<lparr>track_id = ''track-1'',
                   track_hackathon_id = (case cti_hackathon_id i of Some h \<Rightarrow> h | None \<Rightarrow> []),
                   track_name = cti_name i, track_description = cti_description i\<rparr>
         else Inl (ErrorObj ''Track creation failed''), Suc w)),
      createRubricApi = (\<lambda>i w. (Inl (ErrorObj ''Rubric creation failed''), w)),
      updateHackathon = (\<lambda>i w. (Inl (ErrorObj ''Update failed''), w))\<rparr>"

definition mockSetupInput :: HackathonLifecycleInput where
  "mockSetupInput =
     \<lparr>li_hackathon =
        \<lparr>chi_name = ''Test Hackathon'', chi_description = ''Test Description'',
         chi_status = None, chi_start_at = ''2025-01-01T00:00:00Z'',
         chi_end_at = ''2025-01-31T23:59:59Z''\<rparr>,
      li_tracks =
        [\<lparr>cti_hackathon_id = None, cti_name = ''Track 1'',
          cti_description = ''Track 1 Description''\<rparr>,
         \<lparr>cti_hackathon_id = None, cti_name = ''Track 2'',
          cti_description = ''Track 2 Description''\<rparr>],
      li_rubric =
        \<lparr>sri_hackathon_id = None, sri_title = None,
         sri_criteria_json = Some ''{innovation:{weight:0.4,max_score:10}}''\<rparr>\<rparr>"


section \<open>Embedding namespaces (lib/embeddings-namespace.ts)\<close>

text \<open>\<^verbatim>\<open>new ValidationError(message)\<close> of lib/error-handling.\<close>

datatype ValidationError = ValidationError string

text \<open>
  \<^verbatim>\<open>/^[0-9a-f]{8}-[0-9a-f]{4}-[0-9a-f]{4}-[0-9a-f]{4}-[0-9a-f]{12}$/i\<close>: the expression is
  anchored at both ends and has no choice in it, so testing it reads the string from left
  to right: a counted run of hexadecimal digits (either case, by the flag \<^verbatim>\<open>i\<close>), a
  dash, and so on, and nothing may be left at the end.
\<close>

definition isHexDigit :: "char \<Rightarrow> bool" where
  "isHexDigit c \<longleftrightarrow> c \<in> set ''0123456789abcdefABCDEF''"

fun matchHex :: "nat \<Rightarrow> string \<Rightarrow> string option" where
  "matchHex 0 s = Some s"
| "matchHex (Suc n) [] = None"
| "matchHex (Suc n) (c # cs) = (if isHexDigit c then matchHex n cs else None)"

fun matchDash :: "string \<Rightarrow> string option" where
  "matchDash [] = None"
| "matchDash (c # cs) = (if c = CHR ''-'' then Some cs else None)"

definition UUID_REGEX_test :: "string \<Rightarrow> bool" where
  "UUID_REGEX_test s =
     (case Option.bind (Option.bind (Option.bind (Option.bind (Option.bind (Option.bind
            (Option.bind (Option.bind (matchHex 8 s) matchDash) (matchHex 4)) matchDash)
            (matchHex 4)) matchDash) (matchHex 4)) matchDash) (matchHex 12) of
        Some rest \<Rightarrow> rest = []
      | None \<Rightarrow> False)"

text \<open>The characters a string accepted by the expression can hold.\<close>

definition uuidChar :: "char \<Rightarrow> bool" where
  "uuidChar c \<longleftrightarrow> isHexDigit c \<or> c = CHR ''-''"

definition validateUUIDInternal :: "string \<Rightarrow> string \<Rightarrow> ValidationError + unit" where
  "validateUUIDInternal v fieldName =
     (if v = [] then Inl (ValidationError (fieldName @ '' must be a non-empty string''))
      else if \<not> UUID_REGEX_test v
      then Inl (ValidationError (fieldName @ '' must be a valid UUID''))
      else Inr ())"

definition validateUUID :: "string \<Rightarrow> string \<Rightarrow> ValidationError + unit" where
  "validateUUID v fieldName = validateUUIDInternal v fieldName"

text \<open>The three builders of the object \<^verbatim>\<open>EmbeddingNamespace\<close>, by their key.\<close>

datatype NamespaceKey = submissions | projects | judging

fun EmbeddingNamespace :: "NamespaceKey \<Rightarrow> string \<Rightarrow> ValidationError + string" where
  "EmbeddingNamespace submissions hackathonId =
     (case validateUUIDInternal hackathonId ''hackathonId'' of
        Inl e \<Rightarrow> Inl e
      | Inr _ \<Rightarrow> Inr (''hackathons/'' @ hackathonId @ ''/submissions''))"
| "EmbeddingNamespace projects hackathonId =
     (case validateUUIDInternal hackathonId ''hackathonId'' of
        Inl e \<Rightarrow> Inl e
      | Inr _ \<Rightarrow> Inr (''hackathons/'' @ hackathonId @ ''/projects''))"
| "EmbeddingNamespace judging hackathonId =
     (case validateUUIDInternal hackathonId ''hackathonId'' of
        Inl e \<Rightarrow> Inl e
      | Inr _ \<Rightarrow> Inr (''hackathons/'' @ hackathonId @ ''/judging''))"

definition keyName :: "NamespaceKey \<Rightarrow> string" where
  "keyName k =
     (case k of submissions \<Rightarrow> ''submissions'' | projects \<Rightarrow> ''projects''
      | judging \<Rightarrow> ''judging'')"

text \<open>The two builders of the object \<^verbatim>\<open>DocumentId\<close>.\<close>

datatype DocumentKey = submission | project

fun DocumentId :: "DocumentKey \<Rightarrow> string \<Rightarrow> ValidationError + string" where
  "DocumentId submission submissionId =
     (case validateUUIDInternal submissionId ''submissionId'' of
        Inl e \<Rightarrow> Inl e
      | Inr _ \<Rightarrow> Inr (''submission:'' @ submissionId))"
| "DocumentId project projectId =
     (case validateUUIDInternal projectId ''projectId'' of
        Inl e \<Rightarrow> Inl e
      | Inr _ \<Rightarrow> Inr (''project:'' @ projectId))"

definition documentKeyName :: "DocumentKey \<Rightarrow> string" where
  "documentKeyName k = (case k of submission \<Rightarrow> ''submission'' | project \<Rightarrow> ''project'')"

definition dquote :: string where
  "dquote = [char_of (34 :: nat)]"

definition validTypes :: "string list" where
  "validTypes = [''submissions'', ''projects'', ''judging'']"

text \<open>
  \<^verbatim>\<open>parts[1]\<close> and \<^verbatim>\<open>parts[2]\<close> are read only after \<^verbatim>\<open>parts.length !== 3\<close> has been
  excluded, so the list is matched against three elements.
\<close>

definition validateNamespace :: "string \<Rightarrow> ValidationError + unit" where
  "validateNamespace namespace =
     (if namespace = [] then Inl (ValidationError ''Namespace must be a non-empty string'')
      else if \<not> startsWith namespace ''hackathons/''
      then Inl (ValidationError
                  (''Namespace must start with '' @ dquote @ ''hackathons/'' @ dquote))
      else
        (case split CHR ''/'' namespace of
           [p0, hackathonId, type] \<Rightarrow>
             if \<not> UUID_REGEX_test hackathonId
             then Inl (ValidationError (''Invalid hackathon ID in namespace: '' @ hackathonId))
             else if type \<notin> set validTypes
             then Inl (ValidationError
                         (''Invalid namespace type: '' @ type @ ''. Must be one of: '' @
                          join '', '' validTypes))
             else Inr ()
         | _ \<Rightarrow>
             Inl (ValidationError
                    ''Namespace must follow format: hackathons/{hackathon_id}/{type}'')))"

definition validateDocumentId :: "string \<Rightarrow> ValidationError + unit" where
  "validateDocumentId docId =
     (if docId = [] then Inl (ValidationError ''Document ID must be a non-empty string'')
      else
        let validPrefixes = [''submission:'', ''project:''];
            hasValidPrefix = list_ex (\<lambda>prefix. startsWith docId prefix) validPrefixes
        in
        if \<not> hasValidPrefix
        then Inl (ValidationError
                    (''Document ID must start with one of: '' @ join '', '' validPrefixes))
        else
          let prefix = (case split CHR '':'' docId of p # _ \<Rightarrow> p | [] \<Rightarrow> []);
              ident = substringFrom docId (int (length prefix) + 1)
          in
          if \<not> UUID_REGEX_test ident
          then Inl (ValidationError (''Invalid UUID in document ID: '' @ ident))
          else Inr ())"

record ParsedNamespace =
  pn_hackathonId :: string
  pn_type :: string

definition parseNamespace :: "string \<Rightarrow> ValidationError + ParsedNamespace" where
  "parseNamespace namespace =
     (case validateNamespace namespace of
        Inl e \<Rightarrow> Inl e
      | Inr _ \<Rightarrow>
          (case split CHR ''/'' namespace of
             [p0, p1, p2] \<Rightarrow> Inr \<lparr>pn_hackathonId = p1, pn_type = p2\<rparr>
           | _ \<Rightarrow> Inl (ValidationError
                    ''Namespace must follow format: hackathons/{hackathon_id}/{type}'')))"

record ParsedDocumentId =
  pd_type :: string
  pd_id :: string

definition parseDocumentId :: "string \<Rightarrow> ValidationError + ParsedDocumentId" where
  "parseDocumentId docId =
     (case validateDocumentId docId of
        Inl e \<Rightarrow> Inl e
      | Inr _ \<Rightarrow>
          let colonIndex = indexOf docId CHR '':'';
              type = substring docId 0 colonIndex;
              ident = substringFrom docId (colonIndex + 1)
          in Inr \<lparr>pd_type = type, pd_id = ident\<rparr>)"


section \<open>Submissions (lib/api/submissions.ts)\<close>

record ArtifactLink =
  al_url :: string
  al_type :: string
  al_label :: "string option"

record CreateSubmissionInput =
  csi_project_id :: string
  csi_hackathon_id :: string
  csi_submission_text :: string
  csi_artifact_links :: "ArtifactLink list"

text \<open>The row written to the table \<^verbatim>\<open>submissions\<close>.\<close>

record SubmissionWithMetadata =
  submission_id :: string
  project_id :: string
  submitted_at :: string
  submission_text :: string
  artifact_links_json :: string
  namespace :: string

text \<open>The answer of the external store to \<^verbatim>\<open>insertRows\<close>.\<close>

record InsertResponse =
  ir_success :: bool
  ir_error :: "string option"

text \<open>
  What \<^verbatim>\<open>createSubmission\<close> takes from outside: \<^verbatim>\<open>crypto.randomUUID()\<close>,
  \<^verbatim>\<open>new Date().toISOString()\<close>, \<^verbatim>\<open>JSON.stringify\<close> on the artifact links and
  \<^verbatim>\<open>zeroDBClient.insertRows('submissions', rows)\<close>.
\<close>

record 'w SubmissionsEnv =
  se_randomUUID :: "'w \<Rightarrow> string \<times> 'w"
  se_nowISO :: "'w \<Rightarrow> string \<times> 'w"
  se_stringifyLinks :: "ArtifactLink list \<Rightarrow> string"
  se_insertRows :: "SubmissionWithMetadata list \<Rightarrow> 'w \<Rightarrow> (thrown + InsertResponse) \<times> 'w"

datatype SubmissionsCall =
  InsertSubmissions "SubmissionWithMetadata list" "thrown + InsertResponse"

definition generateSubmissionNamespace :: "string \<Rightarrow> string" where
  "generateSubmissionNamespace hackathonId = ''hackathons/'' @ hackathonId @ ''/submissions''"

definition createSubmission ::
  "'w SubmissionsEnv \<Rightarrow> CreateSubmissionInput \<Rightarrow> ('w, SubmissionsCall) run
     \<Rightarrow> (thrown + SubmissionWithMetadata) \<times> ('w, SubmissionsCall) run" where
  "createSubmission env input st =
     (let ns = generateSubmissionNamespace (csi_hackathon_id input);
          (uuid, w1) = se_randomUUID env (store st);
          (now, w2) = se_nowISO env w1;
          row = \<lparr>submission_id = uuid, project_id = csi_project_id input,
                 submitted_at = now, submission_text = csi_submission_text input,
                 artifact_links_json = se_stringifyLinks env (csi_artifact_links input),
                 namespace = ns\<rparr>
      in case invoke (se_insertRows env) InsertSubmissions [row] (st\<lparr>store := w2\<rparr>) of
           (Inl e, st') \<Rightarrow> (Inl e, st')
         | (Inr response, st') \<Rightarrow>
             if \<not> ir_success response
             then (Inl (ErrorObj (case jsOr (ir_error response) (Some ''Failed to create submission'')
                                  of Some m \<Rightarrow> m | None \<Rightarrow> [])), st')
             else (Inr row, st'))"

text \<open>A store that accepts every insert, with fixed answers for the identifier and the clock.\<close>

definition acceptingSubmissionsEnv :: "unit SubmissionsEnv" where
  "acceptingSubmissionsEnv =
     \<lparr>se_randomUUID = (\<lambda>w. (''a1b2c3d4-e5f6-4789-a9b0-c1d2e3f4a5b6'', w)),
      se_nowISO = (\<lambda>w. (''2025-12-31T00:00:00.000Z'', w)),
      se_stringifyLinks = (\<lambda>links. ''[]''),
      se_insertRows = (\<lambda>rows w. (Inr \<lparr>ir_success = True, ir_error = None\<rparr>, w))\<rparr>"


section \<open>JavaScript numbers and objects\<close>

text \<open>
  A value of the type \<^verbatim>\<open>number\<close>: a double. \<open>Finite x\<close> is the double of value \<open>x\<close>
  (\<open>x\<close> is then a real that a double holds, and \<open>Finite 0\<close> is the positive zero),
  \<open>NegZero\<close> is the negative zero.
\<close>

datatype jsnumber = Finite real | NegZero | PosInf | NegInf | NaN

definition isZero :: "jsnumber \<Rightarrow> bool" where
  "isZero a \<longleftrightarrow> a = Finite 0 \<or> a = NegZero"

definition isInfinite :: "jsnumber \<Rightarrow> bool" where
  "isInfinite a \<longleftrightarrow> a = PosInf \<or> a = NegInf"

definition isNegative :: "jsnumber \<Rightarrow> bool" where
  "isNegative a = (case a of Finite x \<Rightarrow> x < 0 | NegZero \<Rightarrow> True | NegInf \<Rightarrow> True | _ \<Rightarrow> False)"

text \<open>The real value of a double that is neither \<^verbatim>\<open>NaN\<close> nor infinite.\<close>

definition realOf :: "jsnumber \<Rightarrow> real" where
  "realOf a = (case a of Finite x \<Rightarrow> x | _ \<Rightarrow> 0)"

definition signedZero :: "bool \<Rightarrow> jsnumber" where
  "signedZero negative = (if negative then NegZero else Finite 0)"

definition signedInfinity :: "bool \<Rightarrow> jsnumber" where
  "signedInfinity negative = (if negative then NegInf else PosInf)"

text \<open>The integer nearest to \<open>q\<close>; of two integers equally near, the even one.\<close>

definition roundHalfEven :: "real \<Rightarrow> int" where
  "roundHalfEven q =
     (let f = \<lfloor>q\<rfloor> in
      if q - of_int f < 1 / 2 then f
      else if 1 / 2 < q - of_int f then f + 1
      else if even f then f else f + 1)"

text \<open>
  The double for an exact result \<open>x\<close>, as every arithmetic operation of the language
  rounds its result (IEEE 754 binary64, round to nearest, ties to even). With \<open>e\<close> the
  exponent of \<open>x\<close> (the integer part of its binary logarithm), and at least \<open>-1022\<close>,
  the doubles around \<open>x\<close> are the multiples of \<open>2 powr (e - 52)\<close>. A result of
  magnitude \<open>2 ^ 1024\<close> is an infinity, and a result rounded to zero keeps the sign of
  \<open>x\<close>.
\<close>

definition doubleOf :: "real \<Rightarrow> jsnumber" where
  "doubleOf x =
     (if x = 0 then Finite 0
      else
        let e = max (- 1022) \<lfloor>log 2 \<bar>x\<bar>\<rfloor>;
            ulp = 2 powr of_int (e - 52);
            r = of_int (roundHalfEven (\<bar>x\<bar> / ulp)) * ulp
        in if 2 ^ 1024 \<le> r then signedInfinity (x < 0)
           else if r = 0 then signedZero (x < 0)
           else Finite (if x < 0 then - r else r))"

text \<open>\<^verbatim>\<open>a + b\<close>\<close>

definition jsPlus :: "jsnumber \<Rightarrow> jsnumber \<Rightarrow> jsnumber" where
  "jsPlus a b =
     (if a = NaN \<or> b = NaN then NaN
      else if isInfinite a \<and> isInfinite b then (if a = b then a else NaN)
      else if isInfinite a then a
      else if isInfinite b then b
      else if realOf a + realOf b = 0 then signedZero (isNegative a \<and> isNegative b)
      else doubleOf (realOf a + realOf b))"

text \<open>\<^verbatim>\<open>a * b\<close>\<close>

definition jsTimes :: "jsnumber \<Rightarrow> jsnumber \<Rightarrow> jsnumber" where
  "jsTimes a b =
     (if a = NaN \<or> b = NaN then NaN
      else if (isInfinite a \<and> isZero b) \<or> (isZero a \<and> isInfinite b) then NaN
      else if isInfinite a \<or> isInfinite b then signedInfinity (isNegative a \<noteq> isNegative b)
      else if isZero a \<or> isZero b then signedZero (isNegative a \<noteq> isNegative b)
      else doubleOf (realOf a * realOf b))"

text \<open>\<^verbatim>\<open>a / b\<close>\<close>

definition jsDivide :: "jsnumber \<Rightarrow> jsnumber \<Rightarrow> jsnumber" where
  "jsDivide a b =
     (if a = NaN \<or> b = NaN then NaN
      else if (isInfinite a \<and> isInfinite b) \<or> (isZero a \<and> isZero b) then NaN
      else if isInfinite a \<or> isZero b then signedInfinity (isNegative a \<noteq> isNegative b)
      else if isInfinite b \<or> isZero a then signedZero (isNegative a \<noteq> isNegative b)
      else doubleOf (realOf a / realOf b))"

text \<open>\<^verbatim>\<open>a < b\<close>: false as soon as one side is \<^verbatim>\<open>NaN\<close>; the two zeros are equal.\<close>

definition jsLess :: "jsnumber \<Rightarrow> jsnumber \<Rightarrow> bool" where
  "jsLess a b \<longleftrightarrow>
     (if a = NaN \<or> b = NaN then False
      else if a = PosInf \<or> b = NegInf then False
      else if a = NegInf \<or> b = PosInf then True
      else realOf a < realOf b)"

text \<open>
  A plain object, as an object literal or \<^verbatim>\<open>JSON.parse\<close> makes it, is modelled as the
  list of its own entries in the order of \<^verbatim>\<open>Object.keys\<close>; its keys are distinct. Its
  prototype is \<^verbatim>\<open>Object.prototype\<close>: the operator \<^verbatim>\<open>in\<close> and the reading of a property
  find the members of the prototype too, \<^verbatim>\<open>Object.keys\<close> and \<^verbatim>\<open>Object.entries\<close> do not.
\<close>

definition objectPrototypeMembers :: "string list" where
  "objectPrototypeMembers =
     [''constructor'', ''__defineGetter__'', ''__defineSetter__'', ''hasOwnProperty'',
      ''__lookupGetter__'', ''__lookupSetter__'', ''isPrototypeOf'', ''propertyIsEnumerable'',
      ''toString'', ''valueOf'', ''__proto__'', ''toLocaleString'']"

text \<open>
  What \<^verbatim>\<open>obj[name]\<close> reads: the value of the own property, or a member inherited from
  the prototype (a function; for \<^verbatim>\<open>__proto__\<close> the prototype itself), or undefined.
\<close>

datatype 'a property = Own 'a | Inherited | Undefined

definition getProperty :: "(string \<times> 'a) list \<Rightarrow> string \<Rightarrow> 'a property" where
  "getProperty obj name =
     (case map_of obj name of
        Some v \<Rightarrow> Own v
      | None \<Rightarrow> if name \<in> set objectPrototypeMembers then Inherited else Undefined)"

text \<open>\<^verbatim>\<open>name in obj\<close>\<close>

definition hasProperty :: "string \<Rightarrow> (string \<times> 'a) list \<Rightarrow> bool" where
  "hasProperty name obj \<longleftrightarrow> getProperty obj name \<noteq> Undefined"

text \<open>
  The number an arithmetic operation or a comparison takes for what was read: the
  functions and the object inherited from the prototype convert to \<^verbatim>\<open>NaN\<close>, and so
  does undefined.
\<close>

definition toNumber :: "jsnumber property \<Rightarrow> jsnumber" where
  "toNumber p = (case p of Own v \<Rightarrow> v | Inherited \<Rightarrow> NaN | Undefined \<Rightarrow> NaN)"


section \<open>Rubrics and scores (lib/api/rubrics.ts, lib/api/scores.ts)\<close>

text \<open>
  The weights and the maximal scores of lib/api/rubrics.ts are kept as exact reals. The
  criteria evaluated below hold the numbers 0 and 2 only, and \<^verbatim>\<open>validateCriteria\<close> then
  computes \<open>0 + 2\<close> and \<open>2 - 1\<close>, on which the arithmetic of doubles is exact.
\<close>

record RubricCriterion =
  rc_criterion_id :: string
  rc_name :: string
  rc_description :: string
  rc_weight :: real
  rc_max_score :: real

record CreateRubricInput =
  cri_hackathon_id :: string
  cri_title :: string
  cri_criteria :: "RubricCriterion list"

record ListRubricsParams =
  lp_hackathon_id :: "string option"
  lp_limit :: "nat option"
  lp_offset :: "nat option"

text \<open>The options and the answer of \<^verbatim>\<open>zeroDBClient.queryRows('rubrics', options)\<close>.\<close>

record QueryOptions =
  qo_filter :: "(string \<times> string) list option"
  qo_limit :: nat
  qo_offset :: nat

record QueryResponse =
  qr_success :: bool
  qr_rows :: "Rubric list option"
  qr_error :: "string option"

record CriterionScore =
  cs_criterion_id :: string
  cs_score :: jsnumber

text \<open>
  The object \<^verbatim>\<open>createScore\<close> receives. The types of TypeScript are erased when the code
  runs, so the object is modelled with every property either side names: those of
  \<^verbatim>\<open>CreateScoreInput\<close> (\<^verbatim>\<open>submission_id\<close>, \<^verbatim>\<open>judge_participant_id\<close>,
  \<^verbatim>\<open>criterion_scores\<close>, \<^verbatim>\<open>feedback\<close>) and those the judging workflow writes
  (\<^verbatim>\<open>judge_id\<close>, \<^verbatim>\<open>score_json\<close>, \<^verbatim>\<open>total_score\<close>). A property the object does not
  have reads as undefined, here \<open>None\<close>.
\<close>

record CreateScoreArgs =
  csa_submission_id :: "string option"
  csa_judge_participant_id :: "string option"
  csa_criterion_scores :: "CriterionScore list option"
  csa_feedback :: "string option"
  csa_judge_id :: "string option"
  csa_score_json :: "string option"
  csa_total_score :: "jsnumber option"

text \<open>The score row \<^verbatim>\<open>createScore\<close> builds, writes and returns.\<close>

record Score =
  sc_score_id :: string
  sc_submission_id :: "string option"
  sc_judge_participant_id :: "string option"
  sc_score_json :: string
  sc_total_score :: jsnumber
  sc_feedback :: "string option"

text \<open>
  The criteria of a rubric as the judging workflow reads them after \<^verbatim>\<open>JSON.parse\<close>: a
  plain object from criterion name to \<^verbatim>\<open>{weight, max_score}\<close>, as the workflow
  declares it.
\<close>

record Criterion =
  c_weight :: jsnumber
  c_max_score :: jsnumber

text \<open>
  What the two modules and the judging workflow take from outside:
  \<^verbatim>\<open>crypto.randomUUID()\<close>, the calls \<^verbatim>\<open>queryRows\<close> and \<^verbatim>\<open>insertRows\<close> of the
  client of the external store, \<^verbatim>\<open>JSON.parse\<close> on the criteria of a rubric (\<open>None\<close> when
  it throws), \<^verbatim>\<open>JSON.stringify\<close>, and the conversion of a number to a string inside a
  template literal.
\<close>

record 'w ApiEnv =
  randomUUID :: "'w \<Rightarrow> string \<times> 'w"
  queryRubrics :: "QueryOptions \<Rightarrow> 'w \<Rightarrow> (thrown + QueryResponse) \<times> 'w"
  insertRubrics :: "Rubric list \<Rightarrow> 'w \<Rightarrow> (thrown + InsertResponse) \<times> 'w"
  insertScores :: "Score list \<Rightarrow> 'w \<Rightarrow> (thrown + InsertResponse) \<times> 'w"
  parseCriteriaJson :: "string \<Rightarrow> (string \<times> Criterion) list option"
  stringifyCriteria :: "RubricCriterion list \<Rightarrow> string"
  stringifyCriterionScores :: "CriterionScore list \<Rightarrow> string"
  stringifyScores :: "(string \<times> jsnumber) list \<Rightarrow> string"
  showNumber :: "jsnumber \<Rightarrow> string"

datatype ApiCall =
    QueryRubrics QueryOptions "thrown + QueryResponse"
  | InsertRubrics "Rubric list" "thrown + InsertResponse"
  | InsertScores "Score list" "thrown + InsertResponse"

text \<open>\<^verbatim>\<open>response.error || fallback\<close>\<close>

definition errorOr :: "string option \<Rightarrow> string \<Rightarrow> string" where
  "errorOr err fallback = (case err of None \<Rightarrow> fallback | Some m \<Rightarrow> if m = [] then fallback else m)"

text \<open>\<^verbatim>\<open>n || fallback\<close> on a possibly undefined number: undefined and zero are falsy.\<close>

definition natOr :: "nat option \<Rightarrow> nat \<Rightarrow> nat" where
  "natOr n fallback = (case n of None \<Rightarrow> fallback | Some k \<Rightarrow> if k = 0 then fallback else k)"

definition createRubric ::
  "'w ApiEnv \<Rightarrow> CreateRubricInput \<Rightarrow> ('w, ApiCall) run
     \<Rightarrow> (thrown + Rubric) \<times> ('w, ApiCall) run" where
  "createRubric env input st =
     (let (uuid, w1) = randomUUID env (store st);
          rubric = \<lparr>rubric_id = uuid, rubric_hackathon_id = cri_hackathon_id input,
                    rubric_title = cri_title input,
                    criteria_json = stringifyCriteria env (cri_criteria input)\<rparr>
      in case invoke (insertRubrics env) InsertRubrics [rubric] (st\<lparr>store := w1\<rparr>) of
           (Inl e, st') \<Rightarrow> (Inl e, st')
         | (Inr response, st') \<Rightarrow>
             if \<not> ir_success response
             then (Inl (ErrorObj (errorOr (ir_error response) ''Failed to create rubric'')), st')
             else (Inr rubric, st'))"

definition listRubrics ::
  "'w ApiEnv \<Rightarrow> ListRubricsParams \<Rightarrow> ('w, ApiCall) run
     \<Rightarrow> (thrown + Rubric list) \<times> ('w, ApiCall) run" where
  "listRubrics env params st =
     (let filter = (if truthy (lp_hackathon_id params)
                    then [(''hackathon_id'', the (lp_hackathon_id params))] else []);
          options = \<lparr>qo_filter = (if filter \<noteq> [] then Some filter else None),
                     qo_limit = natOr (lp_limit params) 100,
                     qo_offset = natOr (lp_offset params) 0\<rparr>
      in case invoke (queryRubrics env) QueryRubrics options st of
           (Inl e, st') \<Rightarrow> (Inl e, st')
         | (Inr response, st') \<Rightarrow>
             if \<not> qr_success response
             then (Inl (ErrorObj (errorOr (qr_error response) ''Failed to list rubrics'')), st')
             else (Inr (case qr_rows response of None \<Rightarrow> [] | Some rows \<Rightarrow> rows), st'))"

text \<open>The loop over the criteria in \<^verbatim>\<open>validateCriteria\<close>: the first failing test returns.\<close>

fun validateEachCriterion :: "RubricCriterion list \<Rightarrow> string option" where
  "validateEachCriterion [] = None"
| "validateEachCriterion (criterion # rest) =
     (if rc_name criterion = [] \<or> length (trim (rc_name criterion)) = 0
      then Some ''All criteria must have a name''
      else if rc_weight criterion \<le> 0 \<or> rc_weight criterion > 1
      then Some ''Criterion weights must be between 0 and 1''
      else if rc_max_score criterion \<le> 0
      then Some ''Max score must be greater than 0''
      else validateEachCriterion rest)"

definition validateCriteria :: "RubricCriterion list \<Rightarrow> string option" where
  "validateCriteria criteria =
     (if length criteria = 0 then Some ''At least one criterion is required''
      else
        let totalWeight = foldl (\<lambda>sum c. sum + rc_weight c) 0 criteria in
        if \<bar>totalWeight - 1\<bar> > 1 / 100 then Some ''Criterion weights must sum to 1.0''
        else validateEachCriterion criteria)"

text \<open>
  The mutation function of the hook \<^verbatim>\<open>useCreateRubric\<close> (hooks/use-rubrics.ts), the one
  caller of \<^verbatim>\<open>validateCriteria\<close>.
\<close>

definition useCreateRubric_mutationFn ::
  "'w ApiEnv \<Rightarrow> CreateRubricInput \<Rightarrow> ('w, ApiCall) run
     \<Rightarrow> (thrown + Rubric) \<times> ('w, ApiCall) run" where
  "useCreateRubric_mutationFn env input st =
     (let validationError = validateCriteria (cri_criteria input) in
      if truthy validationError then (Inl (ErrorObj (the validationError)), st)
      else createRubric env input st)"

text \<open>The constraints of the specification on the criteria of a rubric.\<close>

definition rubricConstraints :: "RubricCriterion list \<Rightarrow> bool" where
  "rubricConstraints criteria \<longleftrightarrow>
     criteria \<noteq> [] \<and>
     \<bar>(\<Sum>c\<leftarrow>criteria. rc_weight c) - 1\<bar> \<le> 1 / 100 \<and>
     (\<forall>c \<in> set criteria. 0 < rc_weight c \<and> rc_weight c \<le> 1 \<and> 0 < rc_max_score c)"

text \<open>\<^verbatim>\<open>calculateTotalScore\<close> of lib/api/scores.ts: the plain sum of the scores.\<close>

definition scores_calculateTotalScore :: "CriterionScore list \<Rightarrow> jsnumber" where
  "scores_calculateTotalScore criterionScores =
     foldl (\<lambda>sum cs. jsPlus sum (cs_score cs)) (Finite 0) criterionScores"

text \<open>
  The message of the \<^verbatim>\<open>TypeError\<close> for \<^verbatim>\<open>criterionScores.reduce\<close> on an undefined
  \<^verbatim>\<open>criterionScores\<close> (the wording is that of V8).
\<close>

definition undefinedReduceMessage :: string where
  "undefinedReduceMessage = ''Cannot read properties of undefined (reading 'reduce')''"

definition createScore ::
  "'w ApiEnv \<Rightarrow> CreateScoreArgs \<Rightarrow> ('w, ApiCall) run
     \<Rightarrow> (thrown + Score) \<times> ('w, ApiCall) run" where
  "createScore env input st =
     (case csa_criterion_scores input of
        None \<Rightarrow> (Inl (ErrorObj undefinedReduceMessage), st)
      | Some criterion_scores \<Rightarrow>
          let totalScore = scores_calculateTotalScore criterion_scores;
              (uuid, w1) = randomUUID env (store st);
              score = \<lparr>sc_score_id = uuid, sc_submission_id = csa_submission_id input,
                       sc_judge_participant_id = csa_judge_participant_id input,
                       sc_score_json = stringifyCriterionScores env criterion_scores,
                       sc_total_score = totalScore, sc_feedback = csa_feedback input\<rparr>
          in case invoke (insertScores env) InsertScores [score] (st\<lparr>store := w1\<rparr>) of
               (Inl e, st') \<Rightarrow> (Inl e, st')
             | (Inr response, st') \<Rightarrow>
                 if \<not> ir_success response
                 then (Inl (ErrorObj (errorOr (ir_error response) ''Failed to create score'')),
                       st')
                 else (Inr score, st'))"


section \<open>Judging workflow (lib/workflows/judging.ts)\<close>

record JudgingInput =
  ji_hackathonId :: string
  ji_submissionId :: string
  ji_judgeId :: string
  ji_criteriaScores :: "(string \<times> jsnumber) list"
  ji_feedback :: "string option"

record JudgingResult =
  jr_score :: Score
  jr_totalScore :: jsnumber

datatype JudgingPhase = judging_validation | judging_rubric_fetch | judging_score_create

record JudgingError =
  je_phase :: JudgingPhase
  je_message :: string
  je_canRetry :: bool
  je_submissionId :: "string option"

definition createJudgingError ::
  "JudgingPhase \<Rightarrow> string \<Rightarrow> bool \<Rightarrow> string option \<Rightarrow> JudgingError" where
  "createJudgingError phase message canRetry submissionId =
     \<lparr>je_phase = phase, je_message = message, je_canRetry = canRetry,
      je_submissionId = submissionId\<rparr>"

text \<open>
  The loop of \<^verbatim>\<open>calculateTotalScore\<close> over \<^verbatim>\<open>Object.entries(criteriaScores)\<close>, with
  the two accumulators \<^verbatim>\<open>weightedSum\<close> and \<^verbatim>\<open>totalWeight\<close>. What
  \<^verbatim>\<open>criteria[criterionName]\<close> reads is tested for truth only: undefined is skipped, a
  criterion of the rubric is used, and so is a member inherited from the prototype, whose
  \<^verbatim>\<open>max_score\<close> and \<^verbatim>\<open>weight\<close> are undefined and enter the arithmetic as \<^verbatim>\<open>NaN\<close>.
\<close>

fun totalScoreLoop ::
  "(string \<times> Criterion) list \<Rightarrow> (string \<times> jsnumber) list \<Rightarrow> jsnumber \<times> jsnumber
     \<Rightarrow> jsnumber \<times> jsnumber" where
  "totalScoreLoop criteria [] acc = acc"
| "totalScoreLoop criteria ((criterionName, criterionScore) # rest) (weightedSum, totalWeight) =
     (case getProperty criteria criterionName of
        Undefined \<Rightarrow> totalScoreLoop criteria rest (weightedSum, totalWeight)
      | Own criterion \<Rightarrow>
          let normalizedScore = jsDivide criterionScore (c_max_score criterion)
          in totalScoreLoop criteria rest
               (jsPlus weightedSum (jsTimes normalizedScore (c_weight criterion)),
                jsPlus totalWeight (c_weight criterion))
      | Inherited \<Rightarrow>
          let normalizedScore = jsDivide criterionScore NaN
          in totalScoreLoop criteria rest
               (jsPlus weightedSum (jsTimes normalizedScore NaN), jsPlus totalWeight NaN))"

definition calculateTotalScore ::
  "(string \<times> jsnumber) list \<Rightarrow> (string \<times> Criterion) list \<Rightarrow> jsnumber" where
  "calculateTotalScore criteriaScores criteria =
     (let (weightedSum, totalWeight) = totalScoreLoop criteria criteriaScores (Finite 0, Finite 0)
      in if isZero totalWeight then Finite 0
         else jsTimes (jsDivide weightedSum totalWeight) (Finite 100))"

definition validateAllCriteriaScored ::
  "(string \<times> jsnumber) list \<Rightarrow> (string \<times> Criterion) list \<Rightarrow> bool" where
  "validateAllCriteriaScored criteriaScores criteria =
     list_all (\<lambda>name. name \<in> set (map fst criteriaScores)) (map fst criteria)"

text \<open>
  The loop of \<^verbatim>\<open>scoreSubmission\<close> over the criteria of the rubric; it returns the error
  thrown, if any. \<^verbatim>\<open>Object.keys(criteria)\<close> and \<^verbatim>\<open>criteria[criterionName]\<close> together
  read the own entries of the object one after the other. The score is what
  \<^verbatim>\<open>criteriaScores[criterionName]\<close> reads, a number of the scores or a member of the
  prototype, and the two comparisons take it as a number.
\<close>

fun checkScores ::
  "(jsnumber \<Rightarrow> string) \<Rightarrow> string \<Rightarrow> (string \<times> jsnumber) list
     \<Rightarrow> (string \<times> Criterion) list \<Rightarrow> JudgingError option" where
  "checkScores sh submissionId criteriaScores [] = None"
| "checkScores sh submissionId criteriaScores ((criterionName, criterion) # rest) =
     (if \<not> hasProperty criterionName criteriaScores
      then Some (createJudgingError judging_validation
                   (''Missing score for criterion: '' @ criterionName) False (Some submissionId))
      else
        let score = toNumber (getProperty criteriaScores criterionName);
            maxScore = c_max_score criterion
        in if jsLess score (Finite 0) \<or> jsLess maxScore score
           then Some (createJudgingError judging_validation
                        (''Score for '' @ criterionName @ '' must be between 0 and '' @ sh maxScore)
                        False (Some submissionId))
           else checkScores sh submissionId criteriaScores rest)"

text \<open>
  \<^verbatim>\<open>scoreSubmission\<close>, with the function \<^verbatim>\<open>createScore\<close> it imports as a parameter (the
  test suite replaces it by a mock); \<open>scoreSubmission\<close> below is the workflow with the
  \<^verbatim>\<open>createScore\<close> of lib/api/scores.ts, as the application runs it.
\<close>

definition scoreSubmissionWith ::
  "(CreateScoreArgs \<Rightarrow> ('w, ApiCall) run \<Rightarrow> (thrown + Score) \<times> ('w, ApiCall) run)
     \<Rightarrow> 'w ApiEnv \<Rightarrow> JudgingInput \<Rightarrow> ('w, ApiCall) run
     \<Rightarrow> (JudgingError + JudgingResult) \<times> ('w, ApiCall) run" where
  "scoreSubmissionWith createScoreFn env input st =
     (let hackathonId = ji_hackathonId input;
          submissionId = ji_submissionId input;
          judgeId = ji_judgeId input;
          criteriaScores = ji_criteriaScores input;
          feedback = ji_feedback input
      in
      if trim submissionId = []
      then (Inl (createJudgingError judging_validation ''Submission ID is required'' False None), st)
      else if trim judgeId = []
      then (Inl (createJudgingError judging_validation ''Judge ID is required'' False None), st)
      else if length criteriaScores = 0
      then (Inl (createJudgingError judging_validation
                   ''At least one criterion score is required'' False None), st)
      else
        (case listRubrics env
                \<lparr>lp_hackathon_id = Some hackathonId, lp_limit = Some 1, lp_offset = None\<rparr> st of
           (Inl e, st1) \<Rightarrow>
             (Inl (createJudgingError judging_rubric_fetch
                     (''Failed to fetch rubric: '' @ thrownMessage e) True None), st1)
         | (Inr [], st1) \<Rightarrow>
             (Inl (createJudgingError judging_rubric_fetch
                     (''Failed to fetch rubric: '' @
                      thrownMessage (ErrorObj ''No rubric found for this hackathon'')) True None),
              st1)
         | (Inr (rubric # _), st1) \<Rightarrow>
             (case parseCriteriaJson env (criteria_json rubric) of
                None \<Rightarrow>
                  (Inl (createJudgingError judging_validation ''Invalid rubric criteria format''
                          False (Some submissionId)), st1)
              | Some criteria \<Rightarrow>
                  (case checkScores (showNumber env) submissionId criteriaScores criteria of
                     Some err \<Rightarrow> (Inl err, st1)
                   | None \<Rightarrow>
                       let totalScore = calculateTotalScore criteriaScores criteria in
                       (case createScoreFn
                               \<lparr>csa_submission_id = Some submissionId,
                                csa_judge_participant_id = None,
                                csa_criterion_scores = None,
                                csa_feedback = feedback,
                                csa_judge_id = Some judgeId,
                                csa_score_json = Some (stringifyScores env criteriaScores),
                                csa_total_score = Some totalScore\<rparr> st1 of
                          (Inl e, st2) \<Rightarrow>
                            (Inl (createJudgingError judging_score_create
                                    (''Failed to create score: '' @ thrownMessage e) True
                                    (Some submissionId)), st2)
                        | (Inr score, st2) \<Rightarrow>
                            (Inr \<lparr>jr_score = score, jr_totalScore = totalScore\<rparr>, st2))))))"

definition scoreSubmission ::
  "'w ApiEnv \<Rightarrow> JudgingInput \<Rightarrow> ('w, ApiCall) run
     \<Rightarrow> (JudgingError + JudgingResult) \<times> ('w, ApiCall) run" where
  "scoreSubmission env input st = scoreSubmissionWith (createScore env) env input st"

text \<open>
  The rubric and the scores of the judging test suite. The weights are the doubles that
  the literals \<^verbatim>\<open>0.4\<close> and \<^verbatim>\<open>0.3\<close> denote.
\<close>

definition double_0_4 :: real where
  "double_0_4 = 3602879701896397 / 2 ^ 53"

definition double_0_3 :: real where
  "double_0_3 = 5404319552844595 / 2 ^ 54"

definition mockCriteria :: "(string \<times> Criterion) list" where
  "mockCriteria =
     [(''innovation'', \<lparr>c_weight = Finite double_0_4, c_max_score = Finite 10\<rparr>),
      (''technical'', \<lparr>c_weight = Finite double_0_3, c_max_score = Finite 10\<rparr>),
      (''design'', \<lparr>c_weight = Finite double_0_3, c_max_score = Finite 10\<rparr>)]"

definition mockScores :: "(string \<times> jsnumber) list" where
  "mockScores = [(''innovation'', Finite 8), (''technical'', Finite 7), (''design'', Finite 9)]"

text \<open>
  The fixtures of the judging test suite, with a store that answers every query with the
  mock rubric and accepts every insert. The text of \<^verbatim>\<open>criteria_json\<close> stands for the
  serialised mock criteria; parsing is a parameter, and here it knows this one text.
\<close>

definition mockRubric :: Rubric where
  "mockRubric =
     \<lparr>rubric_id = ''rubric-123'', rubric_hackathon_id = ''hackathon-123'',
      rubric_title = ''Judging'',
      criteria_json = ''{innovation:{weight:0.4,max_score:10},technical:{weight:0.3,max_score:10},design:{weight:0.3,max_score:10}}''\<rparr>"

definition mockJudgingEnv :: "unit ApiEnv" where
  "mockJudgingEnv =
     \<lparr>randomUUID = (\<lambda>w. (''a1b2c3d4-e5f6-4789-a9b0-c1d2e3f4a5b6'', w)),
      queryRubrics = (\<lambda>options w.
        (Inr \<lparr>qr_success = True, qr_rows = Some [mockRubric], qr_error = None\<rparr>, w)),
      insertRubrics = (\<lambda>rows w. (Inr \<lparr>ir_success = True, ir_error = None\<rparr>, w)),
      insertScores = (\<lambda>rows w. (Inr \<lparr>ir_success = True, ir_error = None\<rparr>, w)),
      parseCriteriaJson = (\<lambda>j. if j = criteria_json mockRubric then Some mockCriteria else None),
      stringifyCriteria = (\<lambda>criteria. if criteria = [] then ''[]'' else ''[...]''),
      stringifyCriterionScores = (\<lambda>scores. if scores = [] then ''[]'' else ''[...]''),
      stringifyScores = (\<lambda>scores.
        if scores = mockScores then ''{innovation:8,technical:7,design:9}'' else ''{...}''),
      showNumber = (\<lambda>x. if x = Finite 10 then ''10'' else ''?'')\<rparr>"

definition validInput :: JudgingInput where
  "validInput =
     \<lparr>ji_hackathonId = ''hackathon-123'', ji_submissionId = ''submission-123'',
      ji_judgeId = ''judge-123'', ji_criteriaScores = mockScores,
      ji_feedback = Some ''Great work!''\<rparr>"

text \<open>The mock of \<^verbatim>\<open>createScore\<close> in the judging test suite: it returns a fixed score.\<close>

definition mockScore :: Score where
  "mockScore =
     \<lparr>sc_score_id = ''score-123'', sc_submission_id = Some ''submission-123'',
      sc_judge_participant_id = Some ''judge-123'',
      sc_score_json = ''{innovation:8,technical:7,design:9}'', sc_total_score = Finite 80,
      sc_feedback = Some ''Great work!''\<rparr>"

definition mockCreateScore ::
  "CreateScoreArgs \<Rightarrow> (unit, ApiCall) run \<Rightarrow> (thrown + Score) \<times> (unit, ApiCall) run" where
  "mockCreateScore args st = (Inr mockScore, st)"

definition rubricQuery :: ListRubricsParams where
  "rubricQuery = \<lparr>lp_hackathon_id = Some ''hackathon-123'', lp_limit = Some 1, lp_offset = None\<rparr>"


section \<open>Properties of the string functions\<close>

lemma startsWith_iff: "startsWith s p \<longleftrightarrow> (\<exists>t. s = p @ t)"
  by (induction s p rule: startsWith.induct) auto

lemma startsWith_hasPrefix: "startsWith s p = hasPrefix p s"
  by (simp add: startsWith_iff hasPrefix_def)

lemma startsWith_append [simp]: "startsWith (p @ t) p"
  by (simp add: startsWith_iff)

lemma matchHackathonSection_iff:
  "matchHackathonSection section p = hackathonSectionPath section p"
proof
  assume m: "matchHackathonSection section p"
  then obtain rest where p: "p = ''/hackathons/'' @ rest"
    unfolding matchHackathonSection_def startsWith_iff by blast
  define ident where "ident = takeWhile (\<lambda>c. c \<noteq> CHR ''/'') rest"
  define after where "after = dropWhile (\<lambda>c. c \<noteq> CHR ''/'') rest"
  from m p have ne: "ident \<noteq> []" and st: "startsWith after (CHR ''/'' # section)"
    unfolding matchHackathonSection_def ident_def after_def by (simp_all add: Let_def)
  from st obtain tail where "after = CHR ''/'' # section @ tail"
    unfolding startsWith_iff by auto
  moreover have "rest = ident @ after"
    unfolding ident_def after_def by simp
  moreover have "CHR ''/'' \<notin> set ident"
    unfolding ident_def by (auto dest: set_takeWhileD)
  ultimately show "hackathonSectionPath section p"
    unfolding hackathonSectionPath_def using p ne by auto
next
  assume "hackathonSectionPath section p"
  then obtain ident tail where ne: "ident \<noteq> []" and ns: "CHR ''/'' \<notin> set ident"
    and p: "p = ''/hackathons/'' @ ident @ ''/'' @ section @ tail"
    unfolding hackathonSectionPath_def by blast
  have all: "\<And>x. x \<in> set ident \<Longrightarrow> x \<noteq> CHR ''/''"
    using ns by auto
  have tw: "takeWhile (\<lambda>c. c \<noteq> CHR ''/'') (ident @ CHR ''/'' # section @ tail) = ident"
    using all by simp
  have dw: "dropWhile (\<lambda>c. c \<noteq> CHR ''/'') (ident @ CHR ''/'' # section @ tail)
              = CHR ''/'' # section @ tail"
    using all by simp
  have "startsWith (CHR ''/'' # section @ tail) (CHR ''/'' # section)"
    by (simp add: startsWith_iff)
  then show "matchHackathonSection section p"
    unfolding matchHackathonSection_def using p ne tw dw by (simp add: Let_def)
qed


section \<open>The route matrix\<close>

lemma match_overlap:
  assumes "matchHackathonSection a p" and "matchHackathonSection b p"
  shows "\<exists>t u. a @ t = b @ u"
proof -
  define after where
    "after = dropWhile (\<lambda>c. c \<noteq> CHR ''/'') (drop (length ''/hackathons/'') p)"
  from assms have "startsWith after (CHR ''/'' # a)" "startsWith after (CHR ''/'' # b)"
    unfolding matchHackathonSection_def after_def by (simp_all add: Let_def)
  then obtain t u where "after = (CHR ''/'' # a) @ t" "after = (CHR ''/'' # b) @ u"
    unfolding startsWith_iff by blast
  then have "a @ t = b @ u" by simp
  then show ?thesis by blast
qed

lemma match_not_api:
  "matchHackathonSection a p \<Longrightarrow> \<not> startsWith p ''/api-settings''"
  unfolding matchHackathonSection_def startsWith_iff by auto

lemma organizer_iff:
  "organizerOnlyPath p \<longleftrightarrow>
     matchHackathonSection ''setup'' p \<or> matchHackathonSection ''participants'' p \<or>
     matchHackathonSection ''prizes'' p \<or> startsWith p ''/api-settings''"
  by (simp add: organizerOnlyPath_def matchHackathonSection_iff startsWith_hasPrefix)

lemma judge_not_organizer:
  assumes "matchHackathonSection ''judging'' p"
  shows "\<not> (matchHackathonSection ''setup'' p \<or> matchHackathonSection ''participants'' p \<or>
     matchHackathonSection ''prizes'' p \<or> startsWith p ''/api-settings'')"
  using match_overlap [OF assms, of "''setup''"] match_overlap [OF assms, of "''participants''"]
    match_overlap [OF assms, of "''prizes''"] match_not_api [OF assms]
  by auto

lemma shared_not_organizer_judge:
  assumes "matchHackathonSection ''teams'' p \<or> matchHackathonSection ''projects'' p \<or> matchHackathonSection ''submissions'' p"
  shows "\<not> (matchHackathonSection ''setup'' p \<or> matchHackathonSection ''participants'' p \<or>
     matchHackathonSection ''prizes'' p \<or> startsWith p ''/api-settings'')"
   and "\<not> matchHackathonSection ''judging'' p"
  using assms
  by (auto dest: match_overlap match_not_api)

text \<open>
  Claim C1. For every path: a path matching an ORGANIZER-only pattern
  (\<^verbatim>\<open>/hackathons/{id}/setup\<close>, \<^verbatim>\<open>/hackathons/{id}/participants\<close>,
  \<^verbatim>\<open>/hackathons/{id}/prizes\<close> or the prefix \<^verbatim>\<open>/api-settings\<close>) gets exactly the
  role list ORGANIZER; a path matching \<^verbatim>\<open>/hackathons/{id}/judging\<close> gets exactly
  JUDGE; a path matching \<^verbatim>\<open>/hackathons/{id}/teams\<close>, \<^verbatim>\<open>.../projects\<close> or
  \<^verbatim>\<open>.../submissions\<close> gets exactly BUILDER and ORGANIZER; any other path under a
  protected prefix is a protected route with no role restriction; and every path of the
  public list is a public route.
\<close>

theorem route_matrix:
  "(organizerOnlyPath p \<longrightarrow> getRequiredRoles p = Some [ORGANIZER]) \<and>
   (judgeOnlyPath p \<longrightarrow> getRequiredRoles p = Some [JUDGE]) \<and>
   (builderOrganizerPath p \<longrightarrow> getRequiredRoles p = Some [BUILDER, ORGANIZER]) \<and>
   (underProtectedPrefix p \<and> \<not> organizerOnlyPath p \<and> \<not> judgeOnlyPath p \<and>
      \<not> builderOrganizerPath p \<longrightarrow> isProtectedRoute p \<and> getRequiredRoles p = None) \<and>
   (inPublicList p \<longrightarrow> isPublicRoute p)"
proof (intro conjI impI)
  assume "organizerOnlyPath p"
  then show "getRequiredRoles p = Some [ORGANIZER]"
    by (simp add: organizer_iff getRequiredRoles_def)
next
  assume "judgeOnlyPath p"
  then have j: "matchHackathonSection ''judging'' p"
    by (simp add: judgeOnlyPath_def matchHackathonSection_iff)
  show "getRequiredRoles p = Some [JUDGE]"
    using j judge_not_organizer [OF j] by (simp add: getRequiredRoles_def)
next
  assume "builderOrganizerPath p"
  then have s: "matchHackathonSection ''teams'' p \<or> matchHackathonSection ''projects'' p \<or>
      matchHackathonSection ''submissions'' p"
    by (simp add: builderOrganizerPath_def matchHackathonSection_iff)
  show "getRequiredRoles p = Some [BUILDER, ORGANIZER]"
    using s shared_not_organizer_judge [OF s] by (simp add: getRequiredRoles_def)
next
  assume a: "underProtectedPrefix p \<and> \<not> organizerOnlyPath p \<and> \<not> judgeOnlyPath p \<and>
      \<not> builderOrganizerPath p"
  then show "isProtectedRoute p"
    by (auto simp: underProtectedPrefix_def isProtectedRoute_def protectedRoutes_def
        startsWith_hasPrefix)
  from a show "getRequiredRoles p = None"
    by (simp add: organizer_iff judgeOnlyPath_def builderOrganizerPath_def
        matchHackathonSection_iff [symmetric] getRequiredRoles_def)
next
  assume "inPublicList p"
  then show "isPublicRoute p"
    by (auto simp: inPublicList_def isPublicRoute_def publicRoutes_def startsWith_hasPrefix)
qed

text \<open>The hypotheses of C1 hold at one concrete path for each row of the matrix.\<close>

theorem route_matrix_witness:
  "organizerOnlyPath ''/hackathons/42/setup'' \<and>
   getRequiredRoles ''/hackathons/42/setup'' = Some [ORGANIZER] \<and>
   organizerOnlyPath ''/api-settings/keys'' \<and>
   getRequiredRoles ''/api-settings/keys'' = Some [ORGANIZER] \<and>
   judgeOnlyPath ''/hackathons/42/judging'' \<and>
   getRequiredRoles ''/hackathons/42/judging'' = Some [JUDGE] \<and>
   builderOrganizerPath ''/hackathons/42/teams/7'' \<and>
   getRequiredRoles ''/hackathons/42/teams/7'' = Some [BUILDER, ORGANIZER] \<and>
   underProtectedPrefix ''/profile/me'' \<and> \<not> organizerOnlyPath ''/profile/me'' \<and>
   \<not> judgeOnlyPath ''/profile/me'' \<and> \<not> builderOrganizerPath ''/profile/me'' \<and>
   isProtectedRoute ''/profile/me'' \<and> getRequiredRoles ''/profile/me'' = None \<and>
   inPublicList ''/login'' \<and> isPublicRoute ''/login''"
proof -
  have h1: "organizerOnlyPath ''/hackathons/42/setup''"
    by (simp add: organizer_iff matchHackathonSection_def)
  have h2: "organizerOnlyPath ''/api-settings/keys''"
    by (simp add: organizer_iff)
  have h3: "judgeOnlyPath ''/hackathons/42/judging''"
    by (simp add: judgeOnlyPath_def matchHackathonSection_iff [symmetric]
        matchHackathonSection_def)
  have h4: "builderOrganizerPath ''/hackathons/42/teams/7''"
    by (simp add: builderOrganizerPath_def matchHackathonSection_iff [symmetric]
        matchHackathonSection_def)
  have h5: "underProtectedPrefix ''/profile/me'' \<and> \<not> organizerOnlyPath ''/profile/me'' \<and>
      \<not> judgeOnlyPath ''/profile/me'' \<and> \<not> builderOrganizerPath ''/profile/me''"
    by (simp add: underProtectedPrefix_def organizer_iff judgeOnlyPath_def
        builderOrganizerPath_def matchHackathonSection_iff [symmetric]
        matchHackathonSection_def startsWith_hasPrefix [symmetric])
  have h6: "inPublicList ''/login''"
    by (simp add: inPublicList_def startsWith_hasPrefix [symmetric])
  show ?thesis
    using h1 h2 h3 h4 h5 h6
      route_matrix [of "''/hackathons/42/setup''"] route_matrix [of "''/api-settings/keys''"]
      route_matrix [of "''/hackathons/42/judging''"]
      route_matrix [of "''/hackathons/42/teams/7''"]
      route_matrix [of "''/profile/me''"] route_matrix [of "''/login''"]
    by simp
qed


section \<open>The edge middleware\<close>

lemma hackathonSection_under_prefix:
  "hackathonSectionPath section p \<Longrightarrow> hasPrefix ''/hackathons'' p"
  unfolding hackathonSectionPath_def hasPrefix_def by auto

lemma roleGated_under_prefix: "hackathonRoleGatedPath p \<Longrightarrow> underProtectedPrefix p"
  unfolding hackathonRoleGatedPath_def underProtectedPrefix_def
  by (blast intro: hackathonSection_under_prefix)

lemma protected_is_mw_protected: "underProtectedPrefix p \<Longrightarrow> mw_isProtectedRoute p"
  by (auto simp: underProtectedPrefix_def mw_isProtectedRoute_def PROTECTED_ROUTES_def
      startsWith_hasPrefix)

lemma protected_not_bypassed:
  assumes "underProtectedPrefix p"
  shows "\<not> startsWith p ''/_next''" and "\<not> startsWith p ''/api''"
    and "\<not> startsWith p ''/static''"
  using assms by (auto simp: underProtectedPrefix_def hasPrefix_def)

lemma protected_not_public:
  assumes "underProtectedPrefix p"
  shows "\<not> mw_isPublicRoute p"
  using assms
  by (auto simp: underProtectedPrefix_def hasPrefix_def mw_isPublicRoute_def PUBLIC_ROUTES_def)

lemma noCredential_token: "noCredential r \<Longrightarrow> \<not> truthy (requestToken r)"
  by (simp add: noCredential_def requestToken_def jsOr_def truthy_def)

text \<open>
  Claim C2, as amended. For every path under a protected prefix (\<^verbatim>\<open>/hackathons\<close>,
  \<^verbatim>\<open>/profile\<close>, \<^verbatim>\<open>/settings\<close>), which covers every role-gated route
  \<^verbatim>\<open>/hackathons/{id}/...\<close>, that contains no dot, a request with no \<^verbatim>\<open>auth_token\<close>
  cookie and no authorization header is redirected to \<^verbatim>\<open>/login\<close> with the query
  parameter \<^verbatim>\<open>redirect\<close> set to the path.
\<close>

theorem middleware_redirects_without_credential:
  assumes "underProtectedPrefix (pathname r) \<or> hackathonRoleGatedPath (pathname r)"
    and "\<not> includesChar (pathname r) CHR ''.''"
    and "noCredential r"
  shows "middleware r = Redirect ''/login'' [(''redirect'', pathname r)]"
proof -
  from assms(1) have u: "underProtectedPrefix (pathname r)"
    by (auto dest: roleGated_under_prefix)
  show ?thesis
    unfolding middleware_def Let_def
    using assms(2) protected_not_bypassed [OF u] protected_not_public [OF u]
      protected_is_mw_protected [OF u] noCredential_token [OF assms(3)]
    by simp
qed

theorem middleware_redirects_without_credential_witness:
  "(underProtectedPrefix ''/hackathons/42/judging'' \<or>
      hackathonRoleGatedPath ''/hackathons/42/judging'') \<and>
   \<not> includesChar ''/hackathons/42/judging'' CHR ''.'' \<and>
   noCredential \<lparr>pathname = ''/hackathons/42/judging'', cookie_auth_token = None,
                 header_authorization = None\<rparr> \<and>
   middleware \<lparr>pathname = ''/hackathons/42/judging'', cookie_auth_token = None,
               header_authorization = None\<rparr>
     = Redirect ''/login'' [(''redirect'', ''/hackathons/42/judging'')]"
proof -
  have h1: "underProtectedPrefix ''/hackathons/42/judging''"
    by (simp add: underProtectedPrefix_def startsWith_hasPrefix [symmetric])
  have h2: "\<not> includesChar ''/hackathons/42/judging'' CHR ''.''"
    by (simp add: includesChar_def)
  have h3: "noCredential \<lparr>pathname = ''/hackathons/42/judging'', cookie_auth_token = None,
                 header_authorization = None\<rparr>"
    by (simp add: noCredential_def)
  show ?thesis
    using h1 h2 h3
      middleware_redirects_without_credential
        [of "\<lparr>pathname = ''/hackathons/42/judging'', cookie_auth_token = None,
                 header_authorization = None\<rparr>"]
    by simp
qed

text \<open>
  Claim C2 as stated fails: a path under \<^verbatim>\<open>/hackathons\<close> that contains a dot is taken
  for a static file and passed through without a credential.
\<close>

theorem middleware_dotted_path_counterexample:
  "authRequiredPath ''/hackathons/v1.0/setup'' \<and>
   noCredential \<lparr>pathname = ''/hackathons/v1.0/setup'', cookie_auth_token = None,
                 header_authorization = None\<rparr> \<and>
   middleware \<lparr>pathname = ''/hackathons/v1.0/setup'', cookie_auth_token = None,
               header_authorization = None\<rparr> = Next"
  by (simp add: authRequiredPath_def underProtectedPrefix_def startsWith_hasPrefix [symmetric]
      noCredential_def middleware_def includesChar_def)

text \<open>
  The ORGANIZER-only prefix \<^verbatim>\<open>/api-settings\<close> starts with \<^verbatim>\<open>/api\<close>: the first test
  of the middleware passes it through, and the test on \<^verbatim>\<open>ORGANIZER_ROUTES\<close> is never
  reached.
\<close>

lemma middleware_api_settings_passes:
  "authRequiredPath ''/api-settings'' \<and>
   requiresOrganizer ''/api-settings'' \<and>
   middleware \<lparr>pathname = ''/api-settings'', cookie_auth_token = None,
               header_authorization = None\<rparr> = Next"
  by (simp add: authRequiredPath_def organizerOnlyPath_def startsWith_hasPrefix [symmetric]
      requiresOrganizer_def ORGANIZER_ROUTES_def middleware_def)

lemma requiresOrganizer_never_decides:
  "requiresOrganizer (pathname r) \<Longrightarrow> middleware r = Next"
  by (auto simp: requiresOrganizer_def ORGANIZER_ROUTES_def middleware_def startsWith_iff)

section \<open>Status transitions\<close>

lemma canTransitionStatus_iff:
  "canTransitionStatus c n \<longleftrightarrow> (c = DRAFT \<and> n = LIVE) \<or> (c = LIVE \<and> n = CLOSED)"
  by (cases c; cases n) (simp_all add: canTransitionStatus_def VALID_STATUS_TRANSITIONS_def)

text \<open>
  Claim C3. \<open>canTransitionStatus\<close> is true exactly for (DRAFT, LIVE) and (LIVE, CLOSED);
  CLOSED has no outgoing transition; for an allowed pair \<open>transitionHackathonStatus\<close>
  issues exactly one update call, for the new status; for every other pair it issues no
  call, leaves the store as it is and fails with status 400 and a message that holds the
  attempted pair and the allowed set.
\<close>

theorem status_transition_table:
  "(canTransitionStatus c n \<longleftrightarrow> (c, n) \<in> {(DRAFT, LIVE), (LIVE, CLOSED)}) \<and>
   getValidTransitions CLOSED = [] \<and>
   \<not> canTransitionStatus CLOSED n \<and>
   (canTransitionStatus c n \<longrightarrow>
      calls (snd (transitionHackathonStatus api hid c n st))
        = calls st @ [UpdateHackathonCall \<lparr>uhi_hackathon_id = hid, uhi_status = n\<rparr>
                        (fst (updateHackathon api \<lparr>uhi_hackathon_id = hid, uhi_status = n\<rparr>
                                (store st)))]) \<and>
   (\<not> canTransitionStatus c n \<longrightarrow>
      transitionHackathonStatus api hid c n st
        = (Inl (APIError
             (''Invalid status transition: '' @ statusName c @ '' '' @ arrow @ '' '' @
              statusName n @ ''. Valid transitions: '' @
              (if getValidTransitions c = [] then ''none''
               else join '', '' (map statusName (getValidTransitions c)))) 400), st))"
proof (intro conjI impI)
  show "canTransitionStatus c n \<longleftrightarrow> (c, n) \<in> {(DRAFT, LIVE), (LIVE, CLOSED)}"
    by (simp add: canTransitionStatus_iff)
  show "getValidTransitions CLOSED = []"
    by (simp add: getValidTransitions_def VALID_STATUS_TRANSITIONS_def)
  show "\<not> canTransitionStatus CLOSED n"
    by (simp add: canTransitionStatus_iff)
next
  assume "canTransitionStatus c n"
  then show "calls (snd (transitionHackathonStatus api hid c n st))
        = calls st @ [UpdateHackathonCall \<lparr>uhi_hackathon_id = hid, uhi_status = n\<rparr>
                        (fst (updateHackathon api \<lparr>uhi_hackathon_id = hid, uhi_status = n\<rparr>
                                (store st)))]"
    by (auto simp: canTransitionStatus_iff transitionHackathonStatus_def
        VALID_STATUS_TRANSITIONS_def invoke_def Let_def split: prod.splits sum.splits)
next
  assume "\<not> canTransitionStatus c n"
  then show "transitionHackathonStatus api hid c n st
        = (Inl (APIError
             (''Invalid status transition: '' @ statusName c @ '' '' @ arrow @ '' '' @
              statusName n @ ''. Valid transitions: '' @
              (if getValidTransitions c = [] then ''none''
               else join '', '' (map statusName (getValidTransitions c)))) 400), st)"
    by (cases c; cases n)
      (simp_all add: canTransitionStatus_iff transitionHackathonStatus_def
        VALID_STATUS_TRANSITIONS_def invalidTransitionMessage_def getValidTransitions_def
        statusName_def Let_def)
qed

theorem status_transition_table_witness:
  "canTransitionStatus DRAFT LIVE \<and>
   calls (snd (transitionHackathonStatus mockApi ''hackathon-123'' DRAFT LIVE emptyRun))
     = [UpdateHackathonCall \<lparr>uhi_hackathon_id = ''hackathon-123'', uhi_status = LIVE\<rparr>
          (Inr (mockHackathon\<lparr>hackathon_status := LIVE\<rparr>))] \<and>
   \<not> canTransitionStatus DRAFT CLOSED \<and>
   transitionHackathonStatus mockApi ''hackathon-123'' DRAFT CLOSED emptyRun
     = (Inl (APIError (''Invalid status transition: DRAFT '' @ arrow @
                       '' CLOSED. Valid transitions: LIVE'') 400), emptyRun)"
proof -
  have h1: "canTransitionStatus DRAFT LIVE"
    by (simp add: canTransitionStatus_def VALID_STATUS_TRANSITIONS_def)
  have h2: "\<not> canTransitionStatus DRAFT CLOSED"
    by (simp add: canTransitionStatus_def VALID_STATUS_TRANSITIONS_def)
  have v: "getValidTransitions DRAFT = [LIVE]"
    by (simp add: getValidTransitions_def VALID_STATUS_TRANSITIONS_def)
  show ?thesis
    using h1 h2
      status_transition_table [where c = DRAFT and n = LIVE and api = mockApi and
        hid = "''hackathon-123''" and st = emptyRun]
      status_transition_table [where c = DRAFT and n = CLOSED and api = mockApi and
        hid = "''hackathon-123''" and st = emptyRun]
    by (simp add: v statusName_def emptyRun_def mockApi_def)
qed


section \<open>The setup workflow\<close>



lemma trackEvents_Nil [simp]: "trackEvents hid ins [] = []"
  by (simp add: trackEvents_def)


lemma invoke_result:
  "invoke f tag inp st = (res, st') \<Longrightarrow>
   res = fst (f inp (store st)) \<and> store st' = snd (f inp (store st))"
  by (auto simp: invoke_def Let_def split: prod.splits)












text \<open>The test \<open>throws error with hackathon ID when track creation fails\<close>, replayed.\<close>

lemma setup_track_failure_replay:
  "createHackathonWithSetup failingTrackApi mockSetupInput \<lparr>store = 0, calls = []\<rparr>
     = (Inl \<lparr>le_phase = tracks_create,
              le_message = ''Failed to create tracks: Track creation failed'',
              le_canRetry = True, le_hackathonId = Some ''hackathon-123'',
              le_createdTracks =
                Some [\<lparr>track_id = ''track-1'', track_hackathon_id = ''hackathon-123'',
                       track_name = ''Track 1'',
                       track_description = ''Track 1 Description''\<rparr>]\<rparr>,
        \<lparr>store = 2,
         calls =
           [CreateHackathonCall ((li_hackathon mockSetupInput)\<lparr>chi_status := Some DRAFT\<rparr>)
              (Inr mockHackathon),
            CreateTrackCall
              \<lparr>cti_hackathon_id = Some ''hackathon-123'', cti_name = ''Track 1'',
               cti_description = ''Track 1 Description''\<rparr>
              (Inr \<lparr>track_id = ''track-1'', track_hackathon_id = ''hackathon-123'',
                    track_name = ''Track 1'', track_description = ''Track 1 Description''\<rparr>),
            CreateTrackCall
              \<lparr>cti_hackathon_id = Some ''hackathon-123'', cti_name = ''Track 2'',
               cti_description = ''Track 2 Description''\<rparr>
              (Inl (ErrorObj ''Track creation failed''))]\<rparr>)"
  by (simp add: createHackathonWithSetup_def mockSetupInput_def failingTrackApi_def Let_def
      trim_def isWhiteSpace_def truthy_def invoke_def mockHackathon_def
      createLifecycleError_def thrownMessage_def)



section \<open>Namespaces and document identifiers\<close>

lemma matchHex_Some:
  "matchHex n s = Some r \<Longrightarrow> \<exists>h. s = h @ r \<and> length h = n \<and> (\<forall>c \<in> set h. isHexDigit c)"
proof (induction n s rule: matchHex.induct)
  case (1 s)
  then show ?case by simp
next
  case (2 n)
  then show ?case by simp
next
  case (3 n c cs)
  then have hx: "isHexDigit c" and m: "matchHex n cs = Some r"
    by (simp_all split: if_splits)
  from "3.IH" [OF hx m] obtain h where "cs = h @ r" "length h = n" "\<forall>c \<in> set h. isHexDigit c"
    by blast
  with hx have "c # cs = (c # h) @ r \<and> length (c # h) = Suc n \<and> (\<forall>x \<in> set (c # h). isHexDigit x)"
    by simp
  then show ?case by blast
qed

lemma matchDash_Some: "matchDash s = Some r \<Longrightarrow> s = CHR ''-'' # r"
  by (cases s) (auto split: if_splits)

lemma matchHex_chars:
  "matchHex n s = Some r \<Longrightarrow> \<exists>h. s = h @ r \<and> (\<forall>c \<in> set h. uuidChar c)"
  by (drule matchHex_Some) (auto simp: uuidChar_def)

lemma matchDash_chars:
  "matchDash s = Some r \<Longrightarrow> \<exists>h. s = h @ r \<and> (\<forall>c \<in> set h. uuidChar c)"
  by (drule matchDash_Some) (auto simp: uuidChar_def intro: exI [of _ "[CHR ''-'']"])

lemma UUID_chars:
  assumes "UUID_REGEX_test s"
  shows "\<forall>c \<in> set s. uuidChar c"
proof -
  from assms obtain r1 r2 r3 r4 r5 r6 r7 r8 where m:
    "matchHex 8 s = Some r1" "matchDash r1 = Some r2"
    "matchHex 4 r2 = Some r3" "matchDash r3 = Some r4"
    "matchHex 4 r4 = Some r5" "matchDash r5 = Some r6"
    "matchHex 4 r6 = Some r7" "matchDash r7 = Some r8"
    "matchHex 12 r8 = Some []"
    unfolding UUID_REGEX_test_def
    by (auto simp: bind_eq_Some_conv split: option.splits)
  from m(1) obtain h1 where h1: "s = h1 @ r1" "\<forall>c \<in> set h1. uuidChar c"
    by (blast dest: matchHex_chars)
  from m(2) obtain h2 where h2: "r1 = h2 @ r2" "\<forall>c \<in> set h2. uuidChar c"
    by (blast dest: matchDash_chars)
  from m(3) obtain h3 where h3: "r2 = h3 @ r3" "\<forall>c \<in> set h3. uuidChar c"
    by (blast dest: matchHex_chars)
  from m(4) obtain h4 where h4: "r3 = h4 @ r4" "\<forall>c \<in> set h4. uuidChar c"
    by (blast dest: matchDash_chars)
  from m(5) obtain h5 where h5: "r4 = h5 @ r5" "\<forall>c \<in> set h5. uuidChar c"
    by (blast dest: matchHex_chars)
  from m(6) obtain h6 where h6: "r5 = h6 @ r6" "\<forall>c \<in> set h6. uuidChar c"
    by (blast dest: matchDash_chars)
  from m(7) obtain h7 where h7: "r6 = h7 @ r7" "\<forall>c \<in> set h7. uuidChar c"
    by (blast dest: matchHex_chars)
  from m(8) obtain h8 where h8: "r7 = h8 @ r8" "\<forall>c \<in> set h8. uuidChar c"
    by (blast dest: matchDash_chars)
  from m(9) obtain h9 where h9: "r8 = h9 @ []" "\<forall>c \<in> set h9. uuidChar c"
    by (blast dest: matchHex_chars)
  have "s = h1 @ h2 @ h3 @ h4 @ h5 @ h6 @ h7 @ h8 @ h9"
    using h1(1) h2(1) h3(1) h4(1) h5(1) h6(1) h7(1) h8(1) h9(1) by simp
  then have "set s = set h1 \<union> set h2 \<union> set h3 \<union> set h4 \<union> set h5 \<union> set h6 \<union> set h7
      \<union> set h8 \<union> set h9"
    by auto
  then show ?thesis
    using h1(2) h2(2) h3(2) h4(2) h5(2) h6(2) h7(2) h8(2) h9(2) by blast
qed

lemma UUID_no_slash: "UUID_REGEX_test s \<Longrightarrow> CHR ''/'' \<notin> set s"
  by (auto dest!: UUID_chars simp: uuidChar_def isHexDigit_def)

lemma UUID_no_colon: "UUID_REGEX_test s \<Longrightarrow> CHR '':'' \<notin> set s"
  by (auto dest!: UUID_chars simp: uuidChar_def isHexDigit_def)

lemma UUID_nonempty: "UUID_REGEX_test s \<Longrightarrow> s \<noteq> []"
proof
  assume "UUID_REGEX_test s" "s = []"
  then have "UUID_REGEX_test []" by simp
  moreover have "matchHex 8 [] = None" by (simp add: eval_nat_numeral)
  ultimately show False by (simp add: UUID_REGEX_test_def)
qed

lemma split_no_sep: "sep \<notin> set s \<Longrightarrow> split sep s = [s]"
  by (induction s) auto

lemma split_append: "sep \<notin> set a \<Longrightarrow> split sep (a @ sep # r) = a # split sep r"
  by (induction a) auto


lemma validateUUIDInternal_iff:
  "validateUUIDInternal h f = Inr () \<longleftrightarrow> UUID_REGEX_test h"
  by (auto simp: validateUUIDInternal_def dest: UUID_nonempty)

lemma split_namespace:
  assumes "CHR ''/'' \<notin> set h" and "CHR ''/'' \<notin> set t"
  shows "split CHR ''/'' (''hackathons/'' @ h @ ''/'' @ t) = [''hackathons'', h, t]"
proof -
  have "split CHR ''/'' (''hackathons'' @ CHR ''/'' # h @ CHR ''/'' # t)
          = ''hackathons'' # split CHR ''/'' (h @ CHR ''/'' # t)"
    by (rule split_append) simp
  also have "split CHR ''/'' (h @ CHR ''/'' # t) = h # split CHR ''/'' t"
    using assms(1) by (rule split_append)
  also have "split CHR ''/'' t = [t]"
    using assms(2) by (rule split_no_sep)
  finally show ?thesis by simp
qed

lemma validateNamespace_built:
  assumes u: "UUID_REGEX_test h" and t: "t \<in> set validTypes"
  shows "validateNamespace (''hackathons/'' @ h @ ''/'' @ t) = Inr ()"
    and "parseNamespace (''hackathons/'' @ h @ ''/'' @ t)
           = Inr \<lparr>pn_hackathonId = h, pn_type = t\<rparr>"
proof -
  from t have ts: "CHR ''/'' \<notin> set t" by (auto simp: validTypes_def)
  note sp = split_namespace [OF UUID_no_slash [OF u] ts]
  have st: "startsWith (''hackathons/'' @ h @ ''/'' @ t) ''hackathons/''"
    by (simp add: startsWith_iff)
  show v: "validateNamespace (''hackathons/'' @ h @ ''/'' @ t) = Inr ()"
    unfolding validateNamespace_def using sp st u t by simp
  show "parseNamespace (''hackathons/'' @ h @ ''/'' @ t)
           = Inr \<lparr>pn_hackathonId = h, pn_type = t\<rparr>"
    unfolding parseNamespace_def using v sp by simp
qed

lemma parseDocumentId_built:
  assumes u: "UUID_REGEX_test h" and p: "p \<in> {''submission'', ''project''}"
  shows "parseDocumentId (p @ '':'' @ h) = Inr \<lparr>pd_type = p, pd_id = h\<rparr>"
proof -
  from p have pc: "CHR '':'' \<notin> set p" by auto
  have sp: "split CHR '':'' (p @ CHR '':'' # h) = [p, h]"
    using split_append [OF pc, of h] split_no_sep [OF UUID_no_colon [OF u]] by simp
  have pre: "list_ex (\<lambda>prefix. startsWith (p @ CHR '':'' # h) prefix)
      [''submission:'', ''project:'']"
    using p by (auto simp: startsWith_iff)
  have sub: "substringFrom (p @ CHR '':'' # h) (int (length p) + 1) = h"
    by (simp add: substringFrom_def substring_def Let_def nat_add_distrib)
  have v: "validateDocumentId (p @ CHR '':'' # h) = Inr ()"
    unfolding validateDocumentId_def Let_def using sp pre sub u by simp
  have tw: "takeWhile (\<lambda>x. x \<noteq> CHR '':'') (p @ CHR '':'' # h) = p"
    using pc by (auto simp: takeWhile_tail)
  have ix: "indexOf (p @ CHR '':'' # h) CHR '':'' = int (length p)"
    by (simp add: indexOf_def tw)
  have ty: "substring (p @ CHR '':'' # h) 0 (int (length p)) = p"
    by (simp add: substring_def Let_def)
  show ?thesis
    unfolding parseDocumentId_def Let_def using v ix ty sub by simp
qed

text \<open>
  Claim C10. For every identifier that passes the UUID validation and every key of
  \<open>EmbeddingNamespace\<close>, parsing the built namespace gives back the identifier and the
  key; and for every such identifier and both keys of \<open>DocumentId\<close>, parsing the built
  document identifier gives back the key and the identifier.
\<close>

theorem namespace_roundtrip:
  assumes "validateUUID h fieldName = Inr ()"
  shows "(\<exists>ns. EmbeddingNamespace t h = Inr ns \<and>
            parseNamespace ns = Inr \<lparr>pn_hackathonId = h, pn_type = keyName t\<rparr>) \<and>
         (\<exists>d. DocumentId k h = Inr d \<and>
            parseDocumentId d = Inr \<lparr>pd_type = documentKeyName k, pd_id = h\<rparr>)"
proof -
  from assms have u: "UUID_REGEX_test h"
    by (simp add: validateUUID_def validateUUIDInternal_iff)
  have v: "\<And>f. validateUUIDInternal h f = Inr ()"
    using u by (simp add: validateUUIDInternal_iff)
  have kn: "keyName t \<in> set validTypes"
    by (cases t) (simp_all add: keyName_def validTypes_def)
  have en: "EmbeddingNamespace t h = Inr (''hackathons/'' @ h @ ''/'' @ keyName t)"
    by (cases t) (simp_all add: v keyName_def)
  have dn: "documentKeyName k \<in> {''submission'', ''project''}"
    by (cases k) (simp_all add: documentKeyName_def)
  have di: "DocumentId k h = Inr (documentKeyName k @ '':'' @ h)"
    by (cases k) (simp_all add: v documentKeyName_def)
  show ?thesis
    using en di validateNamespace_built(2) [OF u kn] parseDocumentId_built [OF u dn]
    by simp
qed

lemma test_uuid_valid: "UUID_REGEX_test ''123e4567-e89b-12d3-a456-426614174000''"
  by (simp add: UUID_REGEX_test_def eval_nat_numeral isHexDigit_def)

theorem namespace_roundtrip_witness:
  "validateUUID ''123e4567-e89b-12d3-a456-426614174000'' ''hackathonId'' = Inr () \<and>
   EmbeddingNamespace judging ''123e4567-e89b-12d3-a456-426614174000''
     = Inr ''hackathons/123e4567-e89b-12d3-a456-426614174000/judging'' \<and>
   (\<exists>ns. EmbeddingNamespace judging ''123e4567-e89b-12d3-a456-426614174000'' = Inr ns \<and>
      parseNamespace ns
        = Inr \<lparr>pn_hackathonId = ''123e4567-e89b-12d3-a456-426614174000'',
               pn_type = ''judging''\<rparr>) \<and>
   (\<exists>d. DocumentId project ''123e4567-e89b-12d3-a456-426614174000'' = Inr d \<and>
      parseDocumentId d
        = Inr \<lparr>pd_type = ''project'', pd_id = ''123e4567-e89b-12d3-a456-426614174000''\<rparr>)"
proof -
  have h: "validateUUID ''123e4567-e89b-12d3-a456-426614174000'' ''hackathonId'' = Inr ()"
    by (simp add: validateUUID_def validateUUIDInternal_def test_uuid_valid)
  have e: "EmbeddingNamespace judging ''123e4567-e89b-12d3-a456-426614174000''
     = Inr ''hackathons/123e4567-e89b-12d3-a456-426614174000/judging''"
    by (simp add: validateUUIDInternal_def test_uuid_valid)
  show ?thesis
    using h e namespace_roundtrip [OF h, of judging project]
    by (simp add: keyName_def documentKeyName_def)
qed


section \<open>Namespaces written by submission creation\<close>

lemma length_split: "length (split sep s) = Suc (count_list s sep)"
  by (induction s) (auto split: list.splits)

lemma generated_namespace_valid_iff:
  "validateNamespace (generateSubmissionNamespace h) = Inr () \<longleftrightarrow> UUID_REGEX_test h"
proof
  assume "UUID_REGEX_test h"
  then show "validateNamespace (generateSubmissionNamespace h) = Inr ()"
    using validateNamespace_built(1) [of h "''submissions''"]
    by (simp add: generateSubmissionNamespace_def validTypes_def)
next
  assume v: "validateNamespace (generateSubmissionNamespace h) = Inr ()"
  have sp: "split CHR ''/'' (''hackathons'' @ CHR ''/'' # h @ ''/submissions'')
      = ''hackathons'' # split CHR ''/'' (h @ ''/submissions'')"
    by (rule split_append) simp
  show "UUID_REGEX_test h"
  proof (cases "CHR ''/'' \<in> set h")
    case True
    then have "count_list h CHR ''/'' \<noteq> 0"
      by (simp add: count_list_0_iff)
    then have "count_list h CHR ''/'' > 0"
      by simp
    then have "length (split CHR ''/'' (generateSubmissionNamespace h)) > 3"
      by (simp add: length_split generateSubmissionNamespace_def)
    then have "validateNamespace (generateSubmissionNamespace h) \<noteq> Inr ()"
      by (auto simp: validateNamespace_def split: list.splits)
    with v show ?thesis by simp
  next
    case False
    have "split CHR ''/'' (generateSubmissionNamespace h) = [''hackathons'', h, ''submissions'']"
      using split_namespace [OF False, of "''submissions''"]
      by (simp add: generateSubmissionNamespace_def)
    with v show ?thesis
      by (auto simp: validateNamespace_def split: if_splits)
  qed
qed

text \<open>
  Whatever the collaborators answer, \<open>createSubmission\<close> issues exactly one insert, and
  the row it writes carries the namespace built from the hackathon identifier of the
  input as it came, valid or not.
\<close>

lemma createSubmission_writes:
  assumes "createSubmission env input st = (res, st')"
  shows "\<exists>row answer. calls st' = calls st @ [InsertSubmissions [row] answer] \<and>
           namespace row = generateSubmissionNamespace (csi_hackathon_id input)"
  using assms
  by (auto simp: createSubmission_def invoke_def Let_def split: prod.splits sum.splits
      if_splits)

text \<open>
  Claim C9 on the code. \<open>validateNamespace\<close> accepts the namespace of a valid identifier
  and rejects the two malformed ones; but \<open>createSubmission\<close> with the hackathon
  identifier \<^verbatim>\<open>not-a-uuid\<close> inserts a row whose namespace \<open>validateNamespace\<close> rejects.
\<close>

theorem createSubmission_unvalidated_namespace:
  "validateNamespace ''hackathons/123e4567-e89b-12d3-a456-426614174000/submissions'' = Inr () \<and>
   validateNamespace ''hackathons/not-a-uuid/submissions''
     = Inl (ValidationError ''Invalid hackathon ID in namespace: not-a-uuid'') \<and>
   validateNamespace ''hackathons/123e4567-e89b-12d3-a456-426614174000/bogus-type''
     = Inl (ValidationError
         ''Invalid namespace type: bogus-type. Must be one of: submissions, projects, judging'') \<and>
   createSubmission acceptingSubmissionsEnv
       \<lparr>csi_project_id = ''b2c3d4e5-f6a7-4819-a0b1-c2d3e4f5a6b7'',
        csi_hackathon_id = ''not-a-uuid'', csi_submission_text = ''Test submission'',
        csi_artifact_links = []\<rparr> emptyRun
     = (Inr \<lparr>submission_id = ''a1b2c3d4-e5f6-4789-a9b0-c1d2e3f4a5b6'',
              project_id = ''b2c3d4e5-f6a7-4819-a0b1-c2d3e4f5a6b7'',
              submitted_at = ''2025-12-31T00:00:00.000Z'',
              submission_text = ''Test submission'', artifact_links_json = ''[]'',
              namespace = ''hackathons/not-a-uuid/submissions''\<rparr>,
        \<lparr>store = (),
         calls = [InsertSubmissions
                    [\<lparr>submission_id = ''a1b2c3d4-e5f6-4789-a9b0-c1d2e3f4a5b6'',
                      project_id = ''b2c3d4e5-f6a7-4819-a0b1-c2d3e4f5a6b7'',
                      submitted_at = ''2025-12-31T00:00:00.000Z'',
                      submission_text = ''Test submission'', artifact_links_json = ''[]'',
                      namespace = ''hackathons/not-a-uuid/submissions''\<rparr>]
                    (Inr \<lparr>ir_success = True, ir_error = None\<rparr>)]\<rparr>)"
proof (intro conjI)
  have u: "UUID_REGEX_test ''123e4567-e89b-12d3-a456-426614174000''"
    by (simp add: UUID_REGEX_test_def eval_nat_numeral isHexDigit_def)
  have n: "\<not> UUID_REGEX_test ''not-a-uuid''"
    by (simp add: UUID_REGEX_test_def eval_nat_numeral isHexDigit_def)
  show "validateNamespace ''hackathons/123e4567-e89b-12d3-a456-426614174000/submissions''
      = Inr ()"
    by (simp add: validateNamespace_def u validTypes_def)
  show "validateNamespace ''hackathons/not-a-uuid/submissions''
     = Inl (ValidationError ''Invalid hackathon ID in namespace: not-a-uuid'')"
    by (simp add: validateNamespace_def n)
  show "validateNamespace ''hackathons/123e4567-e89b-12d3-a456-426614174000/bogus-type''
     = Inl (ValidationError
         ''Invalid namespace type: bogus-type. Must be one of: submissions, projects, judging'')"
    by (simp add: validateNamespace_def u validTypes_def)
  show "createSubmission acceptingSubmissionsEnv
       \<lparr>csi_project_id = ''b2c3d4e5-f6a7-4819-a0b1-c2d3e4f5a6b7'',
        csi_hackathon_id = ''not-a-uuid'', csi_submission_text = ''Test submission'',
        csi_artifact_links = []\<rparr> emptyRun
     = (Inr \<lparr>submission_id = ''a1b2c3d4-e5f6-4789-a9b0-c1d2e3f4a5b6'',
              project_id = ''b2c3d4e5-f6a7-4819-a0b1-c2d3e4f5a6b7'',
              submitted_at = ''2025-12-31T00:00:00.000Z'',
              submission_text = ''Test submission'', artifact_links_json = ''[]'',
              namespace = ''hackathons/not-a-uuid/submissions''\<rparr>,
        \<lparr>store = (),
         calls = [InsertSubmissions
                    [\<lparr>submission_id = ''a1b2c3d4-e5f6-4789-a9b0-c1d2e3f4a5b6'',
                      project_id = ''b2c3d4e5-f6a7-4819-a0b1-c2d3e4f5a6b7'',
                      submitted_at = ''2025-12-31T00:00:00.000Z'',
                      submission_text = ''Test submission'', artifact_links_json = ''[]'',
                      namespace = ''hackathons/not-a-uuid/submissions''\<rparr>]
                    (Inr \<lparr>ir_success = True, ir_error = None\<rparr>)]\<rparr>)"
    by (simp add: createSubmission_def acceptingSubmissionsEnv_def emptyRun_def invoke_def
        generateSubmissionNamespace_def Let_def)
qed


section \<open>The arithmetic of doubles\<close>

lemma jsPlus_NaN: "jsPlus a NaN = NaN" "jsPlus NaN a = NaN"
  by (simp_all add: jsPlus_def)

lemma jsTimes_NaN: "jsTimes a NaN = NaN" "jsTimes NaN a = NaN"
  by (simp_all add: jsTimes_def)

lemma jsDivide_NaN: "jsDivide a NaN = NaN" "jsDivide NaN a = NaN"
  by (simp_all add: jsDivide_def)

lemma jsLess_NaN: "\<not> jsLess a NaN" "\<not> jsLess NaN a"
  by (simp_all add: jsLess_def)

lemma jsLess_Finite: "jsLess (Finite a) (Finite b) \<longleftrightarrow> a < b"
  by (simp add: jsLess_def realOf_def)

lemma jsPlus_Finite: "jsPlus (Finite a) (Finite b) = doubleOf (a + b)"
  by (simp add: jsPlus_def isInfinite_def realOf_def isNegative_def signedZero_def doubleOf_def)

lemma jsTimes_Finite:
  "a \<noteq> 0 \<Longrightarrow> b \<noteq> 0 \<Longrightarrow> jsTimes (Finite a) (Finite b) = doubleOf (a * b)"
  by (simp add: jsTimes_def isInfinite_def isZero_def realOf_def)

lemma jsDivide_Finite:
  "a \<noteq> 0 \<Longrightarrow> b \<noteq> 0 \<Longrightarrow> jsDivide (Finite a) (Finite b) = doubleOf (a / b)"
  by (simp add: jsDivide_def isInfinite_def isZero_def realOf_def)

lemma jsPlus_zero: "jsPlus (Finite 0) (Finite 0) = Finite 0"
  by (simp add: jsPlus_Finite doubleOf_def)

lemma jsTimes_zero: "jsTimes (Finite 0) (Finite b) = signedZero (b < 0)"
  by (simp add: jsTimes_def isInfinite_def isZero_def isNegative_def)

lemma jsDivide_zero: "b \<noteq> 0 \<Longrightarrow> jsDivide (Finite 0) (Finite b) = signedZero (b < 0)"
  by (simp add: jsDivide_def isInfinite_def isZero_def isNegative_def)

lemma jsDivide_zero_zero: "jsDivide (Finite 0) (Finite 0) = NaN"
  by (simp add: jsDivide_def isInfinite_def isZero_def)

lemma roundHalfEven_bounds: "\<lfloor>q\<rfloor> \<le> roundHalfEven q \<and> roundHalfEven q \<le> \<lfloor>q\<rfloor> + 1"
  by (simp add: roundHalfEven_def Let_def)

text \<open>
  The double of a positive \<open>x\<close> below \<open>2 ^ 53\<close>: scaled by the power of two that brings it
  between \<open>2 ^ 52\<close> and \<open>2 ^ 53\<close>, rounded to an integer, and scaled back.
\<close>

lemma doubleOf_scaled:
  assumes lo: "2 ^ 52 \<le> x * 2 ^ m" and hi: "x * 2 ^ m < 2 ^ 53" and m: "m \<le> 1074"
    and n: "roundHalfEven (x * 2 ^ m) = n"
  shows "doubleOf x = Finite (of_int n / 2 ^ m)"
proof -
  define e where "e = 52 - int m"
  have p: "(2::real) powr of_int (- int m) = 1 / 2 ^ m"
    by (simp add: powr_minus powr_realpow divide_inverse)
  have x: "0 < x"
  proof (rule ccontr)
    assume "\<not> 0 < x"
    then have "x * 2 ^ m \<le> 0" by (simp add: mult_le_0_iff)
    with lo show False by (smt (verit) zero_less_power)
  qed
  have e2: "(2::real) powr of_int e = 2 ^ 52 / 2 ^ m"
    unfolding e_def using p
    by (simp add: powr_diff powr_realpow [symmetric] powr_minus field_simps)
  have e3: "(2::real) powr of_int (e + 1) = 2 ^ 53 / 2 ^ m"
    unfolding e_def using p
    by (simp add: powr_diff powr_realpow [symmetric] powr_minus powr_add field_simps)
  have "2 ^ 52 / 2 ^ m \<le> x" using lo by (simp add: field_simps)
  then have lo': "2 powr of_int e \<le> x" by (simp only: e2)
  have "x < 2 ^ 53 / 2 ^ m" using hi by (simp add: field_simps)
  then have hi': "x < 2 powr of_int (e + 1)" by (simp only: e3)
  have fl: "\<lfloor>log 2 x\<rfloor> = e"
    using x lo' hi' by (simp add: floor_log_eq_powr_iff)
  have mx: "max (- 1022) \<lfloor>log 2 \<bar>x\<bar>\<rfloor> = e" using x fl m by (simp add: e_def)
  have u: "(2::real) powr of_int (e - 52) = 1 / 2 ^ m" using p by (simp add: e_def)
  have fb: "2 ^ 52 \<le> \<lfloor>x * 2 ^ m\<rfloor>" "\<lfloor>x * 2 ^ m\<rfloor> < 2 ^ 53"
    using lo hi by (simp_all add: le_floor_iff floor_less_iff)
  have nb: "2 ^ 52 \<le> n" "n \<le> 2 ^ 53"
    using fb roundHalfEven_bounds [of "x * 2 ^ m"] unfolding n by linarith+
  have r0: "real_of_int n / 2 ^ m \<noteq> 0" using nb by simp
  have "real_of_int n \<le> 2 ^ 53" using nb(2) by (metis of_int_le_iff of_int_numeral of_int_power)
  also have "\<dots> < 2 ^ 1024 * 1" by simp
  also have "\<dots> \<le> 2 ^ 1024 * 2 ^ m" by (intro mult_left_mono) simp_all
  finally have r1: "\<not> 2 ^ 1024 \<le> real_of_int n / 2 ^ m" by (simp add: field_simps)
  have ulp: "(2::real) powr of_int (max (- 1022) \<lfloor>log 2 \<bar>x\<bar>\<rfloor> - 52) = 1 / 2 ^ m"
    using u by (simp only: mx)
  have q: "\<bar>x\<bar> / (1 / 2 ^ m) = x * 2 ^ m" using x by simp
  have r: "real_of_int n * (1 / 2 ^ m) = real_of_int n / 2 ^ m" by simp
  show ?thesis
    unfolding doubleOf_def Let_def ulp q n r using x r0 r1 by simp
qed


section \<open>The weighted total\<close>

text \<open>
  The examples of the specification on the code, in the arithmetic of doubles: the rubric
  and the scores of the test suite give exactly 80, maximal scores give 100, scores of
  zero give 0, and so does a rubric none of whose criteria is scored (total weight 0).
  Every operation rounds: for the scores 1, 10 and 10, where the formula over the reals
  gives 64, the code returns the double just below, \<^verbatim>\<open>63.99999999999999\<close>.
\<close>

lemma calculateTotalScore_examples:
  "calculateTotalScore mockScores mockCriteria = Finite 80"
  "calculateTotalScore
     [(''innovation'', Finite 10), (''technical'', Finite 10), (''design'', Finite 10)]
     mockCriteria = Finite 100"
  "calculateTotalScore
     [(''innovation'', Finite 0), (''technical'', Finite 0), (''design'', Finite 0)]
     mockCriteria = Finite 0"
  "calculateTotalScore [(''quality'', Finite 5)] mockCriteria = Finite 0"
  "calculateTotalScore
     [(''innovation'', Finite 1), (''technical'', Finite 10), (''design'', Finite 10)]
     mockCriteria = Finite (9007199254740991 / 2 ^ 47)"
proof -
  have d1: "jsDivide (Finite 8) (Finite 10)
      = Finite (3602879701896397 / 4503599627370496)"
    using doubleOf_scaled [of "8 / 10" 53 7205759403792794]
    by (simp add: jsDivide_Finite roundHalfEven_def)
  have d2: "jsTimes (Finite (3602879701896397 / 4503599627370496)) (Finite (3602879701896397 / 9007199254740992))
      = Finite (1441151880758559 / 4503599627370496)"
    using doubleOf_scaled [of "(3602879701896397 / 4503599627370496) * (3602879701896397 / 9007199254740992)" 54 5764607523034236]
    by (simp add: jsTimes_Finite roundHalfEven_def)
  have d3: "jsPlus (Finite 0) (Finite (1441151880758559 / 4503599627370496))
      = Finite (1441151880758559 / 4503599627370496)"
    using doubleOf_scaled [of "0 + (1441151880758559 / 4503599627370496)" 54 5764607523034236]
    by (simp add: jsPlus_Finite roundHalfEven_def)
  have d4: "jsPlus (Finite 0) (Finite (3602879701896397 / 9007199254740992))
      = Finite (3602879701896397 / 9007199254740992)"
    using doubleOf_scaled [of "0 + (3602879701896397 / 9007199254740992)" 54 7205759403792794]
    by (simp add: jsPlus_Finite roundHalfEven_def)
  have d5: "jsDivide (Finite 7) (Finite 10)
      = Finite (3152519739159347 / 4503599627370496)"
    using doubleOf_scaled [of "7 / 10" 53 6305039478318694]
    by (simp add: jsDivide_Finite roundHalfEven_def)
  have d6: "jsTimes (Finite (3152519739159347 / 4503599627370496)) (Finite (5404319552844595 / 18014398509481984))
      = Finite (7566047373982433 / 36028797018963968)"
    using doubleOf_scaled [of "(3152519739159347 / 4503599627370496) * (5404319552844595 / 18014398509481984)" 55 7566047373982433]
    by (simp add: jsTimes_Finite roundHalfEven_def)
  have d7: "jsPlus (Finite (1441151880758559 / 4503599627370496)) (Finite (7566047373982433 / 36028797018963968))
      = Finite (2386907802506363 / 4503599627370496)"
    using doubleOf_scaled [of "(1441151880758559 / 4503599627370496) + (7566047373982433 / 36028797018963968)" 53 4773815605012726]
    by (simp add: jsPlus_Finite roundHalfEven_def)
  have d8: "jsPlus (Finite (3602879701896397 / 9007199254740992)) (Finite (5404319552844595 / 18014398509481984))
      = Finite (3152519739159347 / 4503599627370496)"
    using doubleOf_scaled [of "(3602879701896397 / 9007199254740992) + (5404319552844595 / 18014398509481984)" 53 6305039478318694]
    by (simp add: jsPlus_Finite roundHalfEven_def)
  have d9: "jsDivide (Finite 9) (Finite 10)
      = Finite (8106479329266893 / 9007199254740992)"
    using doubleOf_scaled [of "9 / 10" 53 8106479329266893]
    by (simp add: jsDivide_Finite roundHalfEven_def)
  have d10: "jsTimes (Finite (8106479329266893 / 9007199254740992)) (Finite (5404319552844595 / 18014398509481984))
      = Finite (607985949695017 / 2251799813685248)"
    using doubleOf_scaled [of "(8106479329266893 / 9007199254740992) * (5404319552844595 / 18014398509481984)" 54 4863887597560136]
    by (simp add: jsTimes_Finite roundHalfEven_def)
  have d11: "jsPlus (Finite (2386907802506363 / 4503599627370496)) (Finite (607985949695017 / 2251799813685248))
      = Finite (3602879701896397 / 4503599627370496)"
    using doubleOf_scaled [of "(2386907802506363 / 4503599627370496) + (607985949695017 / 2251799813685248)" 53 7205759403792794]
    by (simp add: jsPlus_Finite roundHalfEven_def)
  have d12: "jsPlus (Finite (3152519739159347 / 4503599627370496)) (Finite (5404319552844595 / 18014398509481984))
      = Finite 1"
    using doubleOf_scaled [of "(3152519739159347 / 4503599627370496) + (5404319552844595 / 18014398509481984)" 53 9007199254740992]
    by (simp add: jsPlus_Finite roundHalfEven_def)
  have d13: "jsDivide (Finite (3602879701896397 / 4503599627370496)) (Finite 1)
      = Finite (3602879701896397 / 4503599627370496)"
    using doubleOf_scaled [of "(3602879701896397 / 4503599627370496) / 1" 53 7205759403792794]
    by (simp add: jsDivide_Finite roundHalfEven_def)
  have d14: "jsTimes (Finite (3602879701896397 / 4503599627370496)) (Finite 100)
      = Finite 80"
    using doubleOf_scaled [of "(3602879701896397 / 4503599627370496) * 100" 46 5629499534213120]
    by (simp add: jsTimes_Finite roundHalfEven_def)
  have d15: "jsDivide (Finite 10) (Finite 10)
      = Finite 1"
    using doubleOf_scaled [of "10 / 10" 52 4503599627370496]
    by (simp add: jsDivide_Finite roundHalfEven_def)
  have d16: "jsTimes (Finite 1) (Finite (3602879701896397 / 9007199254740992))
      = Finite (3602879701896397 / 9007199254740992)"
    using doubleOf_scaled [of "1 * (3602879701896397 / 9007199254740992)" 54 7205759403792794]
    by (simp add: jsTimes_Finite roundHalfEven_def)
  have d17: "jsTimes (Finite 1) (Finite (5404319552844595 / 18014398509481984))
      = Finite (5404319552844595 / 18014398509481984)"
    using doubleOf_scaled [of "1 * (5404319552844595 / 18014398509481984)" 54 5404319552844595]
    by (simp add: jsTimes_Finite roundHalfEven_def)
  have d18: "jsDivide (Finite 1) (Finite 1)
      = Finite 1"
    using doubleOf_scaled [of "1 / 1" 52 4503599627370496]
    by (simp add: jsDivide_Finite roundHalfEven_def)
  have d19: "jsTimes (Finite 1) (Finite 100)
      = Finite 100"
    using doubleOf_scaled [of "1 * 100" 46 7036874417766400]
    by (simp add: jsTimes_Finite roundHalfEven_def)
  have d20: "jsDivide (Finite 1) (Finite 10)
      = Finite (3602879701896397 / 36028797018963968)"
    using doubleOf_scaled [of "1 / 10" 56 7205759403792794]
    by (simp add: jsDivide_Finite roundHalfEven_def)
  have d21: "jsTimes (Finite (3602879701896397 / 36028797018963968)) (Finite (3602879701896397 / 9007199254740992))
      = Finite (1441151880758559 / 36028797018963968)"
    using doubleOf_scaled [of "(3602879701896397 / 36028797018963968) * (3602879701896397 / 9007199254740992)" 57 5764607523034236]
    by (simp add: jsTimes_Finite roundHalfEven_def)
  have d22: "jsPlus (Finite 0) (Finite (1441151880758559 / 36028797018963968))
      = Finite (1441151880758559 / 36028797018963968)"
    using doubleOf_scaled [of "0 + (1441151880758559 / 36028797018963968)" 57 5764607523034236]
    by (simp add: jsPlus_Finite roundHalfEven_def)
  have d23: "jsPlus (Finite (1441151880758559 / 36028797018963968)) (Finite (5404319552844595 / 18014398509481984))
      = Finite (3062447746611937 / 9007199254740992)"
    using doubleOf_scaled [of "(1441151880758559 / 36028797018963968) + (5404319552844595 / 18014398509481984)" 54 6124895493223874]
    by (simp add: jsPlus_Finite roundHalfEven_def)
  have d24: "jsPlus (Finite (3062447746611937 / 9007199254740992)) (Finite (5404319552844595 / 18014398509481984))
      = Finite (2882303761517117 / 4503599627370496)"
    using doubleOf_scaled [of "(3062447746611937 / 9007199254740992) + (5404319552844595 / 18014398509481984)" 53 5764607523034234]
    by (simp add: jsPlus_Finite roundHalfEven_def)
  have d25: "jsDivide (Finite (2882303761517117 / 4503599627370496)) (Finite 1)
      = Finite (2882303761517117 / 4503599627370496)"
    using doubleOf_scaled [of "(2882303761517117 / 4503599627370496) / 1" 53 5764607523034234]
    by (simp add: jsDivide_Finite roundHalfEven_def)
  have d26: "jsTimes (Finite (2882303761517117 / 4503599627370496)) (Finite 100)
      = Finite (9007199254740991 / 140737488355328)"
    using doubleOf_scaled [of "(2882303761517117 / 4503599627370496) * 100" 47 9007199254740991]
    by (simp add: jsTimes_Finite roundHalfEven_def)
  note steps = d1 d2 d3 d4 d5 d6 d7 d8 d9 d10 d11 d12 d13 d14 d15 d16 d17 d18 d19 d20 d21 d22 d23 d24 d25 d26
  show "calculateTotalScore mockScores mockCriteria = Finite 80"
    by (simp add: calculateTotalScore_def mockScores_def mockCriteria_def getProperty_def
        double_0_4_def double_0_3_def isZero_def steps)
  show "calculateTotalScore
     [(''innovation'', Finite 10), (''technical'', Finite 10), (''design'', Finite 10)]
     mockCriteria = Finite 100"
    by (simp add: calculateTotalScore_def mockCriteria_def getProperty_def
        double_0_4_def double_0_3_def isZero_def steps)
  show "calculateTotalScore
     [(''innovation'', Finite 0), (''technical'', Finite 0), (''design'', Finite 0)]
     mockCriteria = Finite 0"
    by (simp add: calculateTotalScore_def mockCriteria_def getProperty_def
        double_0_4_def double_0_3_def isZero_def steps jsDivide_zero jsTimes_zero
        jsPlus_zero signedZero_def)
  show "calculateTotalScore [(''quality'', Finite 5)] mockCriteria = Finite 0"
    by (simp add: calculateTotalScore_def mockCriteria_def getProperty_def
        objectPrototypeMembers_def isZero_def)
  show "calculateTotalScore
     [(''innovation'', Finite 1), (''technical'', Finite 10), (''design'', Finite 10)]
     mockCriteria = Finite (9007199254740991 / 2 ^ 47)"
    by (simp add: calculateTotalScore_def mockCriteria_def getProperty_def
        double_0_4_def double_0_3_def isZero_def steps)
qed

text \<open>
  A member inherited from the prototype passes the test \<^verbatim>\<open>if (criterion)\<close>: from then on
  both accumulators are \<^verbatim>\<open>NaN\<close>, whatever they held and whatever follows.
\<close>

lemma totalScoreLoop_NaN:
  "totalScoreLoop criteria scores (NaN, NaN) = (NaN, NaN)"
proof (induction scores)
  case Nil
  then show ?case by simp
next
  case (Cons entry scores)
  obtain name score where "entry = (name, score)" by (cases entry)
  with Cons show ?case
    by (cases "getProperty criteria name") (simp_all add: jsPlus_NaN jsTimes_NaN Let_def)
qed

lemma totalScoreLoop_inherited:
  assumes "getProperty criteria name = Inherited"
  shows "totalScoreLoop criteria ((name, score) # rest) (weightedSum, totalWeight) = (NaN, NaN)"
  using assms by (simp add: jsPlus_NaN jsTimes_NaN jsDivide_NaN totalScoreLoop_NaN)

lemma totalScoreLoop_append:
  "totalScoreLoop criteria (xs @ ys) acc
     = totalScoreLoop criteria ys (totalScoreLoop criteria xs acc)"
proof (induction xs arbitrary: acc)
  case Nil
  then show ?case by simp
next
  case (Cons entry xs)
  obtain name score where e: "entry = (name, score)" by (cases entry)
  obtain ws tw where a: "acc = (ws, tw)" by (cases acc)
  show ?case
    unfolding e a using Cons.IH
    by (cases "getProperty criteria name") (simp_all add: Let_def)
qed

text \<open>
  Whatever the rubric and the other scores: one score under a name that the rubric does
  not hold and \<^verbatim>\<open>Object.prototype\<close> does makes the total \<^verbatim>\<open>NaN\<close>.
\<close>

lemma calculateTotalScore_inherited:
  assumes "getProperty criteria name = Inherited"
  shows "calculateTotalScore (before @ (name, score) # rest) criteria = NaN"
proof -
  obtain ws tw where a: "totalScoreLoop criteria before (Finite 0, Finite 0) = (ws, tw)"
    by (cases "totalScoreLoop criteria before (Finite 0, Finite 0)")
  have "totalScoreLoop criteria (before @ (name, score) # rest) (Finite 0, Finite 0) = (NaN, NaN)"
    unfolding totalScoreLoop_append a by (rule totalScoreLoop_inherited [OF assms])
  then show ?thesis
    by (simp add: calculateTotalScore_def isZero_def jsDivide_NaN jsTimes_NaN)
qed

text \<open>
  Claim C4 on the code. The rubric and the scores of the example, an in-range score for
  each criterion, with one more score under the name \<^verbatim>\<open>constructor\<close>: the code reads
  \<^verbatim>\<open>criteria['constructor']\<close>, finds the function inherited from the prototype, and
  returns \<^verbatim>\<open>NaN\<close> where the formula of the claim gives 80. For the rubric with one
  criterion of \<^verbatim>\<open>max_score\<close> 0 and the score 0, in range and all zero, the code divides
  zero by zero and returns \<^verbatim>\<open>NaN\<close> where the claim says 0.
\<close>

theorem calculateTotalScore_not_a_number:
  "calculateTotalScore
     [(''innovation'', Finite 8), (''technical'', Finite 7), (''design'', Finite 9),
      (''constructor'', Finite 5)]
     mockCriteria = NaN \<and>
   calculateTotalScore [(''quality'', Finite 0)]
     [(''quality'', \<lparr>c_weight = Finite 1, c_max_score = Finite 0\<rparr>)] = NaN"
proof -
  have g: "getProperty mockCriteria ''constructor'' = Inherited"
    by (simp add: getProperty_def mockCriteria_def objectPrototypeMembers_def)
  have a: "calculateTotalScore
     ([(''innovation'', Finite 8), (''technical'', Finite 7), (''design'', Finite 9)] @
      (''constructor'', Finite 5) # [])
     mockCriteria = NaN"
    by (rule calculateTotalScore_inherited [OF g])
  have w: "jsPlus (Finite 0) (Finite 1) = Finite 1"
    using doubleOf_scaled [of 1 52 "2 ^ 52"]
    by (simp add: jsPlus_Finite roundHalfEven_def)
  have b: "calculateTotalScore [(''quality'', Finite 0)]
     [(''quality'', \<lparr>c_weight = Finite 1, c_max_score = Finite 0\<rparr>)] = NaN"
    by (simp add: calculateTotalScore_def getProperty_def jsDivide_zero_zero jsTimes_NaN
        jsPlus_NaN jsDivide_NaN isZero_def w)
  from a b show ?thesis by simp
qed


section \<open>Validation in the judging workflow\<close>

lemma listRubrics_calls:
  "listRubrics env params st = (res, st1) \<Longrightarrow>
   \<exists>options answer. calls st1 = calls st @ [QueryRubrics options answer]"
  by (auto simp: listRubrics_def invoke_def Let_def split: prod.splits sum.splits if_splits)

text \<open>
  Blank ids and an object without scores are refused before anything is called, with an
  error of the validation phase that is not retryable.
\<close>

lemma scoreSubmission_rejects_blank:
  assumes "trim (ji_submissionId input) = [] \<or> trim (ji_judgeId input) = [] \<or>
      ji_criteriaScores input = []"
  shows "\<exists>e. scoreSubmissionWith createScoreFn env input st = (Inl e, st) \<and>
           je_phase e = judging_validation \<and> \<not> je_canRetry e"
  using assms by (auto simp: scoreSubmissionWith_def Let_def createJudgingError_def)

text \<open>Every error of the loop over the criteria is a validation error, not retryable.\<close>

lemma checkScores_Some:
  "checkScores sh sid sc cr = Some e \<Longrightarrow>
   je_phase e = judging_validation \<and> \<not> je_canRetry e \<and> je_submissionId e = Some sid"
  by (induction cr)
    (auto simp: createJudgingError_def Let_def split: if_splits)

text \<open>
  What the loop does with one criterion, by what \<^verbatim>\<open>criteriaScores[criterionName]\<close>
  reads. Undefined: the criterion is named as missing. A number below zero or above
  \<^verbatim>\<open>max_score\<close>: the criterion and the bound are named. A number in range: the loop goes
  on. The number \<^verbatim>\<open>NaN\<close> and a member inherited from the prototype: the loop goes on
  as well, since no comparison with them holds.
\<close>

lemma checkScores_missing:
  assumes "getProperty sc name = Undefined"
  shows "checkScores sh sid sc ((name, c) # rest)
     = Some \<lparr>je_phase = judging_validation,
              je_message = ''Missing score for criterion: '' @ name,
              je_canRetry = False, je_submissionId = Some sid\<rparr>"
  using assms by (simp add: hasProperty_def createJudgingError_def)

lemma checkScores_out_of_range:
  assumes "getProperty sc name = Own score"
    and "jsLess score (Finite 0) \<or> jsLess (c_max_score c) score"
  shows "checkScores sh sid sc ((name, c) # rest)
     = Some \<lparr>je_phase = judging_validation,
              je_message = ''Score for '' @ name @ '' must be between 0 and '' @
                           sh (c_max_score c),
              je_canRetry = False, je_submissionId = Some sid\<rparr>"
  using assms by (auto simp: hasProperty_def toNumber_def createJudgingError_def Let_def)

lemma checkScores_in_range:
  assumes "getProperty sc name = Own score"
    and "\<not> jsLess score (Finite 0)" and "\<not> jsLess (c_max_score c) score"
  shows "checkScores sh sid sc ((name, c) # rest) = checkScores sh sid sc rest"
  using assms by (simp add: hasProperty_def toNumber_def Let_def)

lemma checkScores_unchecked:
  assumes "getProperty sc name = Own NaN \<or> getProperty sc name = Inherited"
  shows "checkScores sh sid sc ((name, c) # rest) = checkScores sh sid sc rest"
  using assms by (auto simp: hasProperty_def toNumber_def jsLess_NaN Let_def)

text \<open>
  What the workflow passes on once the validation has let the scores pass: the submission id, the
  judge id (as \<^verbatim>\<open>judge_id\<close>), the serialised scores (as \<^verbatim>\<open>score_json\<close>), the weighted
  total and the feedback; a throw of \<^verbatim>\<open>createScore\<close> becomes a retryable error of the
  phase \<^verbatim>\<open>score_create\<close>, a result is returned with the total.
\<close>

lemma scoreSubmissionWith_after_validation:
  assumes "trim (ji_submissionId input) \<noteq> []" and "trim (ji_judgeId input) \<noteq> []"
    and "ji_criteriaScores input \<noteq> []"
    and "listRubrics env
        \<lparr>lp_hackathon_id = Some (ji_hackathonId input), lp_limit = Some 1, lp_offset = None\<rparr> st
        = (Inr (rubric # others), st1)"
    and "parseCriteriaJson env (criteria_json rubric) = Some criteria"
    and "checkScores (showNumber env) (ji_submissionId input) (ji_criteriaScores input) criteria
        = None"
  shows "scoreSubmissionWith createScoreFn env input st
     = (case createScoreFn
               \<lparr>csa_submission_id = Some (ji_submissionId input),
                csa_judge_participant_id = None, csa_criterion_scores = None,
                csa_feedback = ji_feedback input, csa_judge_id = Some (ji_judgeId input),
                csa_score_json = Some (stringifyScores env (ji_criteriaScores input)),
                csa_total_score = Some (calculateTotalScore (ji_criteriaScores input) criteria)\<rparr>
               st1 of
          (Inl e, st2) \<Rightarrow>
            (Inl \<lparr>je_phase = judging_score_create,
                  je_message = ''Failed to create score: '' @ thrownMessage e,
                  je_canRetry = True, je_submissionId = Some (ji_submissionId input)\<rparr>, st2)
        | (Inr score, st2) \<Rightarrow>
            (Inr \<lparr>jr_score = score,
                  jr_totalScore = calculateTotalScore (ji_criteriaScores input) criteria\<rparr>,
             st2))"
  using assms
  by (simp add: scoreSubmissionWith_def Let_def createJudgingError_def
      split: prod.splits sum.splits)

lemma mock_listRubrics:
  "listRubrics mockJudgingEnv rubricQuery emptyRun
     = (Inr [mockRubric],
        \<lparr>store = (),
         calls = [QueryRubrics
                    \<lparr>qo_filter = Some [(''hackathon_id'', ''hackathon-123'')], qo_limit = 1,
                     qo_offset = 0\<rparr>
                    (Inr \<lparr>qr_success = True, qr_rows = Some [mockRubric], qr_error = None\<rparr>)]\<rparr>)"
  by (simp add: listRubrics_def mockJudgingEnv_def rubricQuery_def emptyRun_def invoke_def
      truthy_def natOr_def Let_def)

lemma mock_ids:
  "trim ''submission-123'' \<noteq> []" "trim ''judge-123'' \<noteq> []" "trim [] = []"
  by (simp_all add: trim_def isWhiteSpace_def)

text \<open>The total weight of the mock rubric, \<^verbatim>\<open>0 + 0.4 + 0.3 + 0.3\<close> in doubles, is 1.\<close>

lemma mock_total_weight:
  "jsPlus (jsPlus (jsPlus (Finite 0) (Finite double_0_4)) (Finite double_0_3))
     (Finite double_0_3) = Finite 1"
proof -
  have w1: "jsPlus (Finite 0) (Finite double_0_4) = Finite (3602879701896397 / 9007199254740992)"
    using doubleOf_scaled [of "3602879701896397 / 9007199254740992" 54 7205759403792794]
    by (simp add: jsPlus_Finite roundHalfEven_def double_0_4_def)
  have w2: "jsPlus (Finite (3602879701896397 / 9007199254740992)) (Finite double_0_3)
      = Finite (3152519739159347 / 4503599627370496)"
    using doubleOf_scaled
      [of "3602879701896397 / 9007199254740992 + 5404319552844595 / 18014398509481984" 53
        6305039478318694]
    by (simp add: jsPlus_Finite roundHalfEven_def double_0_3_def)
  have w3: "jsPlus (Finite (3152519739159347 / 4503599627370496)) (Finite double_0_3) = Finite 1"
    using doubleOf_scaled
      [of "3152519739159347 / 4503599627370496 + 5404319552844595 / 18014398509481984" 53
        9007199254740992]
    by (simp add: jsPlus_Finite roundHalfEven_def double_0_3_def)
  show ?thesis by (simp only: w1 w2 w3)
qed

text \<open>
  Claim C5 on the code. The valid input of the test suite with the score of
  \<^verbatim>\<open>innovation\<close> replaced by \<^verbatim>\<open>NaN\<close>, a number that is not between 0 and the
  \<^verbatim>\<open>max_score\<close> 10: the tests \<^verbatim>\<open>score < 0\<close> and \<^verbatim>\<open>score > maxScore\<close> are both false,
  no validation error is raised, and the workflow goes on to \<^verbatim>\<open>createScore\<close>. With the
  \<^verbatim>\<open>createScore\<close> of the application it ends with a retryable error of the phase
  \<^verbatim>\<open>score_create\<close>; with the mock of the test suite it returns a result whose total is
  \<^verbatim>\<open>NaN\<close>. And with a rubric whose one criterion is named \<^verbatim>\<open>constructor\<close>, the valid
  input, which has no score for it, is accepted too: \<^verbatim>\<open>'constructor' in criteriaScores\<close>
  holds by inheritance, and the workflow returns a result with the total 0.
\<close>

theorem scoreSubmission_validation_gaps:
  "scoreSubmission mockJudgingEnv
       (validInput\<lparr>ji_criteriaScores :=
          [(''innovation'', NaN), (''technical'', Finite 7), (''design'', Finite 9)]\<rparr>)
       emptyRun
     = (Inl \<lparr>je_phase = judging_score_create,
             je_message = ''Failed to create score: '' @ undefinedReduceMessage,
             je_canRetry = True, je_submissionId = Some ''submission-123''\<rparr>,
        \<lparr>store = (),
         calls = [QueryRubrics
                    \<lparr>qo_filter = Some [(''hackathon_id'', ''hackathon-123'')], qo_limit = 1,
                     qo_offset = 0\<rparr>
                    (Inr \<lparr>qr_success = True, qr_rows = Some [mockRubric], qr_error = None\<rparr>)]\<rparr>) \<and>
   scoreSubmissionWith mockCreateScore mockJudgingEnv
       (validInput\<lparr>ji_criteriaScores :=
          [(''innovation'', NaN), (''technical'', Finite 7), (''design'', Finite 9)]\<rparr>)
       emptyRun
     = (Inr \<lparr>jr_score = mockScore, jr_totalScore = NaN\<rparr>,
        \<lparr>store = (),
         calls = [QueryRubrics
                    \<lparr>qo_filter = Some [(''hackathon_id'', ''hackathon-123'')], qo_limit = 1,
                     qo_offset = 0\<rparr>
                    (Inr \<lparr>qr_success = True, qr_rows = Some [mockRubric], qr_error = None\<rparr>)]\<rparr>) \<and>
   scoreSubmissionWith mockCreateScore
       (mockJudgingEnv\<lparr>parseCriteriaJson :=
          (\<lambda>json. Some [(''constructor'', \<lparr>c_weight = Finite 1, c_max_score = Finite 10\<rparr>)])\<rparr>)
       validInput emptyRun
     = (Inr \<lparr>jr_score = mockScore, jr_totalScore = Finite 0\<rparr>,
        \<lparr>store = (),
         calls = [QueryRubrics
                    \<lparr>qo_filter = Some [(''hackathon_id'', ''hackathon-123'')], qo_limit = 1,
                     qo_offset = 0\<rparr>
                    (Inr \<lparr>qr_success = True, qr_rows = Some [mockRubric], qr_error = None\<rparr>)]\<rparr>)"
proof -
  let ?scores = "[(''innovation'', NaN), (''technical'', Finite 7), (''design'', Finite 9)]"
  let ?input = "validInput\<lparr>ji_criteriaScores := ?scores\<rparr>"
  let ?criteria = "[(''constructor'', \<lparr>c_weight = Finite 1, c_max_score = Finite 10\<rparr>)]"
  let ?env = "mockJudgingEnv\<lparr>parseCriteriaJson := (\<lambda>json. Some ?criteria)\<rparr>"
  let ?log = "\<lparr>store = (),
         calls = [QueryRubrics
                    \<lparr>qo_filter = Some [(''hackathon_id'', ''hackathon-123'')], qo_limit = 1,
                     qo_offset = 0\<rparr>
                    (Inr \<lparr>qr_success = True, qr_rows = Some [mockRubric], qr_error = None\<rparr>)]\<rparr>"
  have ids: "trim (ji_submissionId ?input) \<noteq> []" "trim (ji_judgeId ?input) \<noteq> []"
    "ji_criteriaScores ?input \<noteq> []"
    by (simp_all add: validInput_def mock_ids)
  have ids': "trim (ji_submissionId validInput) \<noteq> []" "trim (ji_judgeId validInput) \<noteq> []"
    "ji_criteriaScores validInput \<noteq> []"
    by (simp_all add: validInput_def mock_ids mockScores_def)
  have lr: "listRubrics mockJudgingEnv
      \<lparr>lp_hackathon_id = Some (ji_hackathonId ?input), lp_limit = Some 1, lp_offset = None\<rparr>
      emptyRun
     = (Inr (mockRubric # []), ?log)"
    using mock_listRubrics by (simp add: rubricQuery_def validInput_def)
  have lr': "listRubrics ?env
      \<lparr>lp_hackathon_id = Some (ji_hackathonId validInput), lp_limit = Some 1,
       lp_offset = None\<rparr> emptyRun
     = (Inr (mockRubric # []), ?log)"
    by (simp add: listRubrics_def mockJudgingEnv_def emptyRun_def invoke_def truthy_def
        natOr_def Let_def validInput_def)
  have pc: "parseCriteriaJson mockJudgingEnv (criteria_json mockRubric) = Some mockCriteria"
    by (simp add: mockJudgingEnv_def)
  have pc': "parseCriteriaJson ?env (criteria_json mockRubric) = Some ?criteria"
    by simp
  have ck: "checkScores (showNumber mockJudgingEnv) (ji_submissionId ?input)
      (ji_criteriaScores ?input) mockCriteria = None"
    by (simp add: mockCriteria_def hasProperty_def getProperty_def toNumber_def jsLess_NaN
        jsLess_Finite)
  have ck': "checkScores (showNumber ?env) (ji_submissionId validInput)
      (ji_criteriaScores validInput) ?criteria = None"
    by (simp add: validInput_def mockScores_def hasProperty_def getProperty_def toNumber_def
        jsLess_NaN objectPrototypeMembers_def)
  have loop: "totalScoreLoop mockCriteria ?scores (Finite 0, Finite 0) = (NaN, Finite 1)"
    using mock_total_weight
    by (simp add: mockCriteria_def getProperty_def jsDivide_NaN jsTimes_NaN jsPlus_NaN)
  have total: "calculateTotalScore (ji_criteriaScores ?input) mockCriteria = NaN"
    unfolding calculateTotalScore_def using loop
    by (simp add: isZero_def jsDivide_NaN jsTimes_NaN del: totalScoreLoop.simps)
  have total': "calculateTotalScore (ji_criteriaScores validInput) ?criteria = Finite 0"
    by (simp add: calculateTotalScore_def validInput_def mockScores_def getProperty_def
        objectPrototypeMembers_def isZero_def)
  have a: "scoreSubmission mockJudgingEnv ?input emptyRun
     = (Inl \<lparr>je_phase = judging_score_create,
             je_message = ''Failed to create score: '' @ undefinedReduceMessage,
             je_canRetry = True, je_submissionId = Some ''submission-123''\<rparr>,
        ?log)"
    unfolding scoreSubmission_def scoreSubmissionWith_after_validation [OF ids lr pc ck]
    by (simp add: createScore_def thrownMessage_def validInput_def)
  have b: "scoreSubmissionWith mockCreateScore mockJudgingEnv ?input emptyRun
     = (Inr \<lparr>jr_score = mockScore, jr_totalScore = NaN\<rparr>, ?log)"
    unfolding scoreSubmissionWith_after_validation [OF ids lr pc ck] total
    by (simp add: mockCreateScore_def)
  have c: "scoreSubmissionWith mockCreateScore ?env validInput emptyRun
     = (Inr \<lparr>jr_score = mockScore, jr_totalScore = Finite 0\<rparr>, ?log)"
    unfolding scoreSubmissionWith_after_validation [OF ids' lr' pc' ck'] total'
    by (simp add: mockCreateScore_def)
  from a b c show ?thesis by (simp only: simp_thms)
qed


section \<open>Persisting a score\<close>

text \<open>
  The \<^verbatim>\<open>createScore\<close> of lib/api/scores.ts reads \<^verbatim>\<open>criterion_scores\<close>, which the
  object of the workflow does not have: it throws before it reaches the store.
\<close>

lemma createScore_without_criterion_scores:
  "csa_criterion_scores args = None \<Longrightarrow>
   createScore env args st = (Inl (ErrorObj undefinedReduceMessage), st)"
  by (simp add: createScore_def)

lemma scoreSubmission_never_inserts:
  assumes "scoreSubmission env input st = (res, st')"
  shows "(\<exists>e. res = Inl e) \<and>
         (calls st' = calls st \<or> (\<exists>options answer. calls st' = calls st @ [QueryRubrics options answer]))"
proof -
  let ?q = "\<lparr>lp_hackathon_id = Some (ji_hackathonId input), lp_limit = Some 1, lp_offset = None\<rparr>"
  obtain r st1 where lr: "listRubrics env ?q st = (r, st1)"
    by (cases "listRubrics env ?q st")
  from listRubrics_calls [OF lr] obtain options answer where
    c1: "calls st1 = calls st @ [QueryRubrics options answer]" by blast
  from assms lr have "(\<exists>e. res = Inl e) \<and> (st' = st \<or> st' = st1)"
    by (auto simp: scoreSubmission_def scoreSubmissionWith_def Let_def createScore_def
        split: if_splits sum.splits list.splits option.splits)
  with c1 show ?thesis by auto
qed

text \<open>
  Claim C6 on the code. The valid input of the test suite, with a store that answers the
  rubric query and would accept every insert: the workflow ends with a retryable error of
  the phase \<^verbatim>\<open>score_create\<close>, and the log holds the rubric query alone; no score is
  written and none is returned.
\<close>

theorem scoreSubmission_fails_to_persist:
  "scoreSubmission mockJudgingEnv validInput emptyRun
     = (Inl \<lparr>je_phase = judging_score_create,
             je_message = ''Failed to create score: '' @ undefinedReduceMessage,
             je_canRetry = True, je_submissionId = Some ''submission-123''\<rparr>,
        \<lparr>store = (),
         calls = [QueryRubrics
                    \<lparr>qo_filter = Some [(''hackathon_id'', ''hackathon-123'')], qo_limit = 1,
                     qo_offset = 0\<rparr>
                    (Inr \<lparr>qr_success = True, qr_rows = Some [mockRubric], qr_error = None\<rparr>)]\<rparr>)"
proof -
  have lr: "listRubrics mockJudgingEnv
      \<lparr>lp_hackathon_id = Some ''hackathon-123'', lp_limit = Some 1, lp_offset = None\<rparr> emptyRun
     = (Inr [mockRubric],
        \<lparr>store = (),
         calls = [QueryRubrics
                    \<lparr>qo_filter = Some [(''hackathon_id'', ''hackathon-123'')], qo_limit = 1,
                     qo_offset = 0\<rparr>
                    (Inr \<lparr>qr_success = True, qr_rows = Some [mockRubric], qr_error = None\<rparr>)]\<rparr>)"
    using mock_listRubrics by (simp add: rubricQuery_def)
  have pc: "parseCriteriaJson mockJudgingEnv (criteria_json mockRubric) = Some mockCriteria"
    by (simp add: mockJudgingEnv_def)
  have rg: "checkScores (showNumber mockJudgingEnv) (ji_submissionId validInput)
      (ji_criteriaScores validInput) mockCriteria = None"
    by (simp add: validInput_def mockScores_def mockCriteria_def hasProperty_def
        getProperty_def toNumber_def jsLess_Finite)
  have lr': "listRubrics mockJudgingEnv
      \<lparr>lp_hackathon_id = Some (ji_hackathonId validInput), lp_limit = Some 1,
       lp_offset = None\<rparr> emptyRun
     = (Inr (mockRubric # []),
        \<lparr>store = (),
         calls = [QueryRubrics
                    \<lparr>qo_filter = Some [(''hackathon_id'', ''hackathon-123'')], qo_limit = 1,
                     qo_offset = 0\<rparr>
                    (Inr \<lparr>qr_success = True, qr_rows = Some [mockRubric], qr_error = None\<rparr>)]\<rparr>)"
    using lr by (simp add: validInput_def)
  have ids: "trim (ji_submissionId validInput) \<noteq> []" "trim (ji_judgeId validInput) \<noteq> []"
    "ji_criteriaScores validInput \<noteq> []"
    by (simp_all add: validInput_def mock_ids mockScores_def)
  show ?thesis
    unfolding scoreSubmission_def
      scoreSubmissionWith_after_validation [OF ids lr' pc rg]
    by (simp add: createScore_def thrownMessage_def validInput_def)
qed


section \<open>Creating a rubric\<close>

text \<open>
  The hook \<^verbatim>\<open>useCreateRubric\<close> calls \<^verbatim>\<open>validateCriteria\<close> first: it refuses a rubric
  without criteria, and one with a single criterion of weight 2 and maximal score 0, and
  writes nothing.
\<close>

lemma useCreateRubric_rejects:
  "useCreateRubric_mutationFn env
       \<lparr>cri_hackathon_id = ''hackathon-123'', cri_title = ''Empty rubric'', cri_criteria = []\<rparr>
       st
     = (Inl (ErrorObj ''At least one criterion is required''), st)"
  "useCreateRubric_mutationFn env
       \<lparr>cri_hackathon_id = ''hackathon-123'', cri_title = ''Bad weights'',
        cri_criteria =
          [\<lparr>rc_criterion_id = ''c1'', rc_name = ''innovation'', rc_description = [],
            rc_weight = 2, rc_max_score = 0\<rparr>]\<rparr>
       st
     = (Inl (ErrorObj ''Criterion weights must sum to 1.0''), st)"
  by (simp_all add: useCreateRubric_mutationFn_def validateCriteria_def truthy_def Let_def)

text \<open>
  \<open>createRubric\<close> itself tests nothing: whatever the criteria, it issues the insert.
\<close>

lemma createRubric_always_writes:
  assumes "createRubric env input st = (res, st')"
  shows "\<exists>rubric answer. calls st' = calls st @ [InsertRubrics [rubric] answer] \<and>
           criteria_json rubric = stringifyCriteria env (cri_criteria input)"
  using assms
  by (auto simp: createRubric_def invoke_def Let_def split: prod.splits sum.splits if_splits)

text \<open>
  Claim C7 on the code. A rubric without criteria violates the constraints and
  \<open>validateCriteria\<close> rejects it, but \<open>createRubric\<close> writes it to the store and returns
  it; so it does with one criterion of weight 2 and maximal score 0.
\<close>

theorem createRubric_writes_unvalidated:
  "validateCriteria [] = Some ''At least one criterion is required'' \<and>
   createRubric mockJudgingEnv
       \<lparr>cri_hackathon_id = ''hackathon-123'', cri_title = ''Empty rubric'', cri_criteria = []\<rparr>
       emptyRun
     = (Inr \<lparr>rubric_id = ''a1b2c3d4-e5f6-4789-a9b0-c1d2e3f4a5b6'',
              rubric_hackathon_id = ''hackathon-123'', rubric_title = ''Empty rubric'',
              criteria_json = ''[]''\<rparr>,
        \<lparr>store = (),
         calls = [InsertRubrics
                    [\<lparr>rubric_id = ''a1b2c3d4-e5f6-4789-a9b0-c1d2e3f4a5b6'',
                      rubric_hackathon_id = ''hackathon-123'', rubric_title = ''Empty rubric'',
                      criteria_json = ''[]''\<rparr>]
                    (Inr \<lparr>ir_success = True, ir_error = None\<rparr>)]\<rparr>) \<and>
   validateCriteria
       [\<lparr>rc_criterion_id = ''c1'', rc_name = ''innovation'', rc_description = [],
         rc_weight = 2, rc_max_score = 0\<rparr>] = Some ''Criterion weights must sum to 1.0'' \<and>
   createRubric mockJudgingEnv
       \<lparr>cri_hackathon_id = ''hackathon-123'', cri_title = ''Bad weights'',
        cri_criteria =
          [\<lparr>rc_criterion_id = ''c1'', rc_name = ''innovation'', rc_description = [],
            rc_weight = 2, rc_max_score = 0\<rparr>]\<rparr>
       emptyRun
     = (Inr \<lparr>rubric_id = ''a1b2c3d4-e5f6-4789-a9b0-c1d2e3f4a5b6'',
              rubric_hackathon_id = ''hackathon-123'', rubric_title = ''Bad weights'',
              criteria_json = ''[...]''\<rparr>,
        \<lparr>store = (),
         calls = [InsertRubrics
                    [\<lparr>rubric_id = ''a1b2c3d4-e5f6-4789-a9b0-c1d2e3f4a5b6'',
                      rubric_hackathon_id = ''hackathon-123'', rubric_title = ''Bad weights'',
                      criteria_json = ''[...]''\<rparr>]
                    (Inr \<lparr>ir_success = True, ir_error = None\<rparr>)]\<rparr>)"
  by (simp add: validateCriteria_def createRubric_def mockJudgingEnv_def emptyRun_def
      invoke_def Let_def)

text \<open>Both rubrics written above violate the constraints of the specification.\<close>

lemma written_rubrics_violate_constraints:
  "\<not> rubricConstraints [] \<and>
   \<not> rubricConstraints
       [\<lparr>rc_criterion_id = ''c1'', rc_name = ''innovation'', rc_description = [],
         rc_weight = 2, rc_max_score = 0\<rparr>]"
  by (simp add: rubricConstraints_def)

end
